theory Spec2Isabelle
  imports Main "HOL-Library.Multiset" "HOL-Library.Sublist"
begin

section \<open>Data model\<close>

text \<open>
  Positions and ranges of the editor API. Lines and characters are JavaScript numbers;
  they are kept as \<open>int\<close> so that \<open>position.character - 1\<close> can go below zero
  as it does in the source.
\<close>

record Position =
  line :: int
  character :: int

record Range =
  range_start :: Position
  range_end :: Position

text \<open>\<open>new Position(l, c)\<close> and \<open>new Range(l1, c1, l2, c2)\<close>.\<close>

definition new_Position :: "int \<Rightarrow> int \<Rightarrow> Position" where
  "new_Position l c = \<lparr>line = l, character = c\<rparr>"

definition new_Range :: "int \<Rightarrow> int \<Rightarrow> int \<Rightarrow> int \<Rightarrow> Range" where
  "new_Range l1 c1 l2 c2 = \<lparr>range_start = new_Position l1 c1, range_end = new_Position l2 c2\<rparr>"

text \<open>
  A definition result is a \<open>Location\<close> (uri and range) or a \<open>LocationLink\<close>
  (optional origin selection range, target uri, target range, optional target selection
  range). \<open>instanceof Location\<close> is the discriminator \<open>is_Location\<close>.
\<close>

datatype Definition =
    is_Location: Location (loc_uri: string) (loc_range: Range)
  | LocationLink (originSelectionRange: "Range option") (targetUri: string)
      (targetRange: Range) (targetSelectionRange: "Range option")

record TextDocument =
  uri :: string
  getText :: string

record EmbeddedLanguageDocInfos =
  info_uri :: string
  language :: string
  characterIndexes :: "int list"

text \<open>
  A completion item: its label, a detail text, and its range, which is absent, a single
  range, or an inserting/replacing pair.
\<close>

datatype ItemRange =
    NoRange
  | SingleRange Range
  | InsertReplace (inserting: Range) (replacing: Range)

record CompletionItem =
  label :: string
  detail :: string
  item_range :: ItemRange

text \<open>
  The collaborators of the two middlewares, as parameters: the requests manager, the
  embedded-language documents manager, \<open>workspace.openTextDocument\<close>, the two
  translators of \<open>./utils\<close> and the two commands run through
  \<open>commands.executeCommand\<close>. A position handed to a command may be
  \<open>undefined\<close> (\<open>None\<close>), since the source passes on whatever
  \<open>getEmbeddedLanguageDocPosition\<close> returned.
\<close>

record Client =
  getEmbeddedLanguageTypeOnPosition :: "string \<Rightarrow> Position \<Rightarrow> string option"
  getEmbeddedLanguageDocInfos :: "string \<Rightarrow> string \<Rightarrow> EmbeddedLanguageDocInfos option"
  openTextDocument :: "string \<Rightarrow> TextDocument"
  getEmbeddedLanguageDocPosition ::
    "TextDocument \<Rightarrow> TextDocument \<Rightarrow> int list \<Rightarrow> Position \<Rightarrow> Position option"
  getOriginalDocRange ::
    "TextDocument \<Rightarrow> TextDocument \<Rightarrow> int list \<Rightarrow> Range \<Rightarrow> Range option"
  executeDefinitionProvider :: "string \<Rightarrow> Position option \<Rightarrow> Definition list"
  executeCompletionItemProvider ::
    "string \<Rightarrow> Position option \<Rightarrow> string option \<Rightarrow> CompletionItem list"

text \<open>The commands and document openings a request issues, in the order it issues them.\<close>

datatype Call =
    OpenTextDocument string
  | ExecuteDefinitionProvider string "Position option"
  | ExecuteCompletionItemProvider string "Position option" "string option"

section \<open>Helpers of \<open>./utils\<close> over definition results\<close>

text \<open>
  Modelled from the spec: \<open>getDefinitionUri\<close>, \<open>checkIsDefinitionUriEqual\<close>,
  \<open>changeDefinitionUri\<close>, \<open>checkIsDefinitionRangeEqual\<close> and
  \<open>convertToSameDefinitionType\<close> are imported from \<open>./utils\<close>, which is not
  among the sources. The spec gives a Location its uri and range and a LocationLink its
  target uri and target range as the one target pair of each shape; the helpers read,
  compare and rewrite that pair, and the conversion rebuilds it in the other shape.
\<close>

definition getDefinitionUri :: "Definition \<Rightarrow> string" where
  "getDefinitionUri d = (case d of Location u r \<Rightarrow> u | LocationLink osr tu tr tsr \<Rightarrow> tu)"

definition checkIsDefinitionUriEqual :: "Definition \<Rightarrow> string \<Rightarrow> bool" where
  "checkIsDefinitionUriEqual d u = (getDefinitionUri d = u)"

definition changeDefinitionUri :: "Definition \<Rightarrow> string \<Rightarrow> Definition" where
  "changeDefinitionUri d u =
     (case d of Location _ r \<Rightarrow> Location u r
      | LocationLink osr _ tr tsr \<Rightarrow> LocationLink osr u tr tsr)"

definition checkIsDefinitionRangeEqual :: "Definition \<Rightarrow> Range \<Rightarrow> bool" where
  "checkIsDefinitionRangeEqual d r =
     (case d of Location _ lr \<Rightarrow> lr = r | LocationLink _ _ tr _ \<Rightarrow> tr = r)"

definition convertToSameDefinitionType :: "Definition \<Rightarrow> Definition \<Rightarrow> Definition" where
  "convertToSameDefinitionType referenceDefinition definitionToConvert =
     (if is_Location referenceDefinition then
        (case definitionToConvert of
           Location u r \<Rightarrow> definitionToConvert
         | LocationLink osr tu tr tsr \<Rightarrow> Location tu tr)
      else
        (case definitionToConvert of
           Location u r \<Rightarrow> LocationLink None u r None
         | LocationLink osr tu tr tsr \<Rightarrow> definitionToConvert))"

section \<open>The definition middleware (client)\<close>

text \<open>
  \<open>ajustDefinitionRange\<close> maps the range of a definition from the embedded document
  to the original document. The source mutates the definition; the model returns it.
  A range is overwritten only when its translation is defined. For a LocationLink the
  source assigns \<open>newTargetRange\<close> to \<open>targetSelectionRange\<close>.
\<close>

definition ajustDefinitionRange ::
  "Client \<Rightarrow> Definition \<Rightarrow> TextDocument \<Rightarrow> TextDocument \<Rightarrow> int list \<Rightarrow> Definition" where
  "ajustDefinitionRange env d originalTextDocument embeddedLanguageTextDocument indexes =
     (case d of
        Location u r \<Rightarrow>
          (case getOriginalDocRange env originalTextDocument embeddedLanguageTextDocument indexes r of
             Some newRange \<Rightarrow> Location u newRange
           | None \<Rightarrow> d)
      | LocationLink osr tu tr tsr \<Rightarrow>
          (let newTargetRange =
                 getOriginalDocRange env originalTextDocument embeddedLanguageTextDocument indexes tr;
               tr' = (case newTargetRange of Some nr \<Rightarrow> nr | None \<Rightarrow> tr)
           in case tsr of
                None \<Rightarrow> LocationLink osr tu tr' tsr
              | Some sel \<Rightarrow>
                  (case getOriginalDocRange env originalTextDocument embeddedLanguageTextDocument
                          indexes sel of
                     Some newTargetSelectionRange \<Rightarrow> LocationLink osr tu tr' newTargetRange
                   | None \<Rightarrow> LocationLink osr tu tr' tsr)))"

text \<open>
  \<open>redirectDefinition\<close>: when the definition's range is the tested range, the
  definition provider is run again on the definition's uri at the redirected position and
  every result is converted to the type of the initial definition. The first component
  is the command issued, the second the value of the promise.
\<close>

definition redirectDefinition ::
  "Client \<Rightarrow> Definition \<Rightarrow> Range \<Rightarrow> Position \<Rightarrow> Call list \<times> Definition list option" where
  "redirectDefinition env initialDefinition testedRange redirectedPosition =
     (if \<not> checkIsDefinitionRangeEqual initialDefinition testedRange then ([], None)
      else
        (let u = getDefinitionUri initialDefinition;
             redirectedResult = executeDefinitionProvider env u (Some redirectedPosition)
         in ([ExecuteDefinitionProvider u (Some redirectedPosition)],
             Some (map (convertToSameDefinitionType initialDefinition) redirectedResult))))"

definition dRange :: Range where
  "dRange = new_Range 2 0 2 1"

definition dataSmartPosition :: Position where
  "dataSmartPosition = new_Position 2 19"

definition getDefinitionOfD :: "Client \<Rightarrow> Definition \<Rightarrow> Call list \<times> Definition list option" where
  "getDefinitionOfD env d = redirectDefinition env d dRange dataSmartPosition"

definition eRange :: Range where
  "eRange = new_Range 3 0 3 1"

definition eventPosition :: Position where
  "eventPosition = new_Position 3 14"

definition getDefinitionOfE :: "Client \<Rightarrow> Definition \<Rightarrow> Call list \<times> Definition list option" where
  "getDefinitionOfE env d = redirectDefinition env d eRange eventPosition"

definition redirectionFunctions ::
  "(Client \<Rightarrow> Definition \<Rightarrow> Call list \<times> Definition list option) list" where
  "redirectionFunctions = [getDefinitionOfD, getDefinitionOfE]"

text \<open>
  \<open>processDefinitions\<close> starts one asynchronous callback per definition
  (\<open>definitions.map(async ...)\<close>) and waits for all of them; every callback pushes
  onto the one shared \<open>result\<close> array. A callback runs until its first
  \<open>await\<close> when it is started, and from one \<open>await\<close> to the next each time it is
  resumed. The state holds the callbacks that are suspended, each with the definition it
  works on, the index of the redirection function it awaits and the value that promise
  will have, together with the shared array and the commands issued so far.
\<close>

record ProcState =
  pending :: "(Definition \<times> nat \<times> Definition list option) list"
  result :: "Definition list"
  calls :: "Call list"

definition initialState :: ProcState where
  "initialState = \<lparr>pending = [], result = [], calls = []\<rparr>"

text \<open>The end of the callback: the uri is changed, the range adjusted, the definition pushed.\<close>

definition finishDefinition ::
  "Client \<Rightarrow> TextDocument \<Rightarrow> TextDocument \<Rightarrow> EmbeddedLanguageDocInfos \<Rightarrow> Definition \<Rightarrow>
   ProcState \<Rightarrow> ProcState" where
  "finishDefinition env originalTextDocument embeddedLanguageTextDocument infos d s =
     s\<lparr>result := result s @
          [ajustDefinitionRange env (changeDefinitionUri d (uri originalTextDocument))
             originalTextDocument embeddedLanguageTextDocument (characterIndexes infos)]\<rparr>"

text \<open>
  The head of the \<open>for\<close> loop at index \<open>k\<close>: the next redirection function is called
  (which issues its command, if any) and the callback suspends on its promise; past the
  last function the callback reaches its end.
\<close>

definition awaitRedirection ::
  "Client \<Rightarrow> TextDocument \<Rightarrow> TextDocument \<Rightarrow> EmbeddedLanguageDocInfos \<Rightarrow> Definition \<Rightarrow> nat \<Rightarrow>
   ProcState \<Rightarrow> ProcState" where
  "awaitRedirection env originalTextDocument embeddedLanguageTextDocument infos d k s =
     (if k < length redirectionFunctions then
        (let (issued, promise) = (redirectionFunctions ! k) env d
         in s\<lparr>pending := pending s @ [(d, k, promise)], calls := calls s @ issued\<rparr>)
      else finishDefinition env originalTextDocument embeddedLanguageTextDocument infos d s)"

text \<open>The callback from its start to its first \<open>await\<close>, or to its end when it has none.\<close>

definition startDefinition ::
  "Client \<Rightarrow> TextDocument \<Rightarrow> TextDocument \<Rightarrow> EmbeddedLanguageDocInfos \<Rightarrow> Definition \<Rightarrow>
   ProcState \<Rightarrow> ProcState" where
  "startDefinition env originalTextDocument embeddedLanguageTextDocument infos d s =
     (if \<not> checkIsDefinitionUriEqual d (info_uri infos) then s\<lparr>result := result s @ [d]\<rparr>
      else if language infos = ''python'' then
        awaitRedirection env originalTextDocument embeddedLanguageTextDocument infos d 0 s
      else finishDefinition env originalTextDocument embeddedLanguageTextDocument infos d s)"

text \<open>
  The suspended callback at index \<open>i\<close> is resumed with the value of its promise: a
  redirection is pushed and the callback returns, \<open>undefined\<close> sends it to the next
  turn of the loop.
\<close>

definition resumeDefinition ::
  "Client \<Rightarrow> TextDocument \<Rightarrow> TextDocument \<Rightarrow> EmbeddedLanguageDocInfos \<Rightarrow> nat \<Rightarrow>
   ProcState \<Rightarrow> ProcState" where
  "resumeDefinition env originalTextDocument embeddedLanguageTextDocument infos i s =
     (case pending s ! i of
        (d, k, promise) \<Rightarrow>
          (let s' = s\<lparr>pending := take i (pending s) @ drop (Suc i) (pending s)\<rparr>
           in case promise of
                Some redirection \<Rightarrow> s'\<lparr>result := result s' @ redirection\<rparr>
              | None \<Rightarrow>
                  awaitRedirection env originalTextDocument embeddedLanguageTextDocument infos
                    d (Suc k) s'))"

text \<open>
  The weight of the suspended callbacks: what is left of each one's loop. It bounds the
  number of resumptions.
\<close>

definition taskWeight :: "Definition \<times> nat \<times> Definition list option \<Rightarrow> nat" where
  "taskWeight t = Suc (length redirectionFunctions - fst (snd t))"

definition pendingWeight :: "ProcState \<Rightarrow> nat" where
  "pendingWeight s = sum_list (map taskWeight (pending s))"

text \<open>
  \<open>await Promise.all(...)\<close>: suspended callbacks are resumed one at a time until none is
  left. Which one is resumed next is the completion timing of the awaited promises; it is
  an input, the \<open>schedule\<close>: its head, taken modulo the number of suspended callbacks,
  picks the next one, and an exhausted schedule resumes the oldest. Every order of
  completion is some schedule.
\<close>

function run ::
  "Client \<Rightarrow> TextDocument \<Rightarrow> TextDocument \<Rightarrow> EmbeddedLanguageDocInfos \<Rightarrow> nat list \<Rightarrow>
   ProcState \<Rightarrow> ProcState" where
  "run env originalTextDocument embeddedLanguageTextDocument infos schedule s =
     (if pending s = [] then s
      else
        (case schedule of
           [] \<Rightarrow>
             run env originalTextDocument embeddedLanguageTextDocument infos []
               (resumeDefinition env originalTextDocument embeddedLanguageTextDocument infos 0 s)
         | i # rest \<Rightarrow>
             run env originalTextDocument embeddedLanguageTextDocument infos rest
               (resumeDefinition env originalTextDocument embeddedLanguageTextDocument infos
                  (i mod length (pending s)) s)))"
  by pat_completeness auto

termination
proof -
  have removed: "sum_list (map f (take i xs @ drop (Suc i) xs)) + f (xs ! i) = sum_list (map f xs)"
    if "i < length xs" for f :: "Definition \<times> nat \<times> Definition list option \<Rightarrow> nat" and i xs
  proof -
    from that have "xs = take i xs @ xs ! i # drop (Suc i) xs"
      by (rule id_take_nth_drop)
    then have "sum_list (map f xs) = sum_list (map f (take i xs @ xs ! i # drop (Suc i) xs))"
      by simp
    then show ?thesis by simp
  qed
  have decreases: "pendingWeight (resumeDefinition env orig emb infos i s) < pendingWeight s"
    if "i < length (pending s)" for env orig emb infos i s
  proof -
    obtain d k p where t: "pending s ! i = (d, k, p)"
      by (cases "pending s ! i") auto
    have w: "sum_list (map taskWeight (take i (pending s) @ drop (Suc i) (pending s)))
               + taskWeight (d, k, p) = pendingWeight s"
      using removed [OF that, of taskWeight] t by (simp add: pendingWeight_def)
    show ?thesis
    proof (cases p)
      case (Some r)
      then show ?thesis using w t
        by (simp add: resumeDefinition_def pendingWeight_def taskWeight_def Let_def)
    next
      case None
      then show ?thesis using w t
        by (auto simp add: resumeDefinition_def awaitRedirection_def finishDefinition_def
            pendingWeight_def taskWeight_def Let_def split: prod.splits)
    qed
  qed
  show ?thesis
    by (relation "measure (\<lambda>(env, orig, emb, infos, schedule, s). pendingWeight s)")
       (auto intro!: decreases)
qed

declare run.simps [simp del]

text \<open>
  \<open>processDefinitions\<close>: the callbacks are started in the order of the input
  (\<open>definitions.map\<close>), then resumed until all are done; the shared array is returned.
  The model returns the final state, which holds it together with the commands issued.
\<close>

definition processDefinitions ::
  "Client \<Rightarrow> nat list \<Rightarrow> Definition list \<Rightarrow> TextDocument \<Rightarrow> TextDocument \<Rightarrow>
   EmbeddedLanguageDocInfos \<Rightarrow> ProcState" where
  "processDefinitions env schedule definitions originalTextDocument embeddedLanguageTextDocument
     infos =
     run env originalTextDocument embeddedLanguageTextDocument infos schedule
       (fold (startDefinition env originalTextDocument embeddedLanguageTextDocument infos)
          definitions initialState)"

text \<open>
  What the host provider (\<open>next\<close>) and the middleware return: \<open>undefined\<close>,
  \<open>null\<close>, a single Location, or an array.
\<close>

datatype DefinitionResult =
    Undefined
  | Null
  | Single Definition
  | Array "Definition list"

definition isArray :: "DefinitionResult \<Rightarrow> bool" where
  "isArray r = (case r of Array ds \<Rightarrow> True | _ \<Rightarrow> False)"

definition arrayLength :: "DefinitionResult \<Rightarrow> nat" where
  "arrayLength r = (case r of Array ds \<Rightarrow> length ds | _ \<Rightarrow> 0)"

text \<open>
  \<open>middlewareProvideDefinition\<close>, with the host provider as the parameter
  \<open>nextProvider\<close>. It returns the middleware's value and the commands and document
  openings it issued.
\<close>

definition middlewareProvideDefinition ::
  "Client \<Rightarrow> nat list \<Rightarrow> TextDocument \<Rightarrow> Position \<Rightarrow>
   (TextDocument \<Rightarrow> Position \<Rightarrow> DefinitionResult) \<Rightarrow> DefinitionResult \<times> Call list" where
  "middlewareProvideDefinition env schedule document position nextProvider =
     (let nextResult = nextProvider document position in
      if (isArray nextResult \<and> arrayLength nextResult \<noteq> 0)
         \<or> (\<not> isArray nextResult \<and> nextResult \<noteq> Undefined)
      then (nextResult, [])
      else
        (case getEmbeddedLanguageTypeOnPosition env (uri document) position of
           None \<Rightarrow> (Undefined, [])
         | Some embeddedLanguageType \<Rightarrow>
             (case getEmbeddedLanguageDocInfos env (uri document) embeddedLanguageType of
                None \<Rightarrow> (Undefined, [])
              | Some embeddedLanguageDocInfos \<Rightarrow>
                  (let embeddedLanguageTextDocument =
                         openTextDocument env (info_uri embeddedLanguageDocInfos);
                       adjustedPosition =
                         getEmbeddedLanguageDocPosition env document embeddedLanguageTextDocument
                           (characterIndexes embeddedLanguageDocInfos) position;
                       tempResult =
                         executeDefinitionProvider env (info_uri embeddedLanguageDocInfos)
                           adjustedPosition;
                       s = processDefinitions env schedule tempResult document
                             embeddedLanguageTextDocument embeddedLanguageDocInfos
                   in (Array (result s),
                       [OpenTextDocument (info_uri embeddedLanguageDocInfos),
                        ExecuteDefinitionProvider (info_uri embeddedLanguageDocInfos)
                          adjustedPosition] @ calls s)))))"

text \<open>
  The body of one callback read on its own, from its start to its end: the
  \<open>for\<close> loop over the redirection functions, and the list the callback pushes.
\<close>

fun redirectionLoop ::
  "(Client \<Rightarrow> Definition \<Rightarrow> Call list \<times> Definition list option) list \<Rightarrow> Client \<Rightarrow>
   Definition \<Rightarrow> Definition list option" where
  "redirectionLoop [] env d = None"
| "redirectionLoop (f # fs) env d =
     (case snd (f env d) of Some redirection \<Rightarrow> Some redirection
      | None \<Rightarrow> redirectionLoop fs env d)"

definition adjustedDefinition ::
  "Client \<Rightarrow> TextDocument \<Rightarrow> TextDocument \<Rightarrow> EmbeddedLanguageDocInfos \<Rightarrow> Definition \<Rightarrow>
   Definition" where
  "adjustedDefinition env originalTextDocument embeddedLanguageTextDocument infos d =
     ajustDefinitionRange env (changeDefinitionUri d (uri originalTextDocument))
       originalTextDocument embeddedLanguageTextDocument (characterIndexes infos)"

definition callbackResult ::
  "Client \<Rightarrow> TextDocument \<Rightarrow> TextDocument \<Rightarrow> EmbeddedLanguageDocInfos \<Rightarrow> Definition \<Rightarrow>
   Definition list" where
  "callbackResult env originalTextDocument embeddedLanguageTextDocument infos d =
     (if \<not> checkIsDefinitionUriEqual d (info_uri infos) then [d]
      else if language infos = ''python'' then
        (case redirectionLoop redirectionFunctions env d of
           Some redirection \<Rightarrow> redirection
         | None \<Rightarrow>
             [adjustedDefinition env originalTextDocument embeddedLanguageTextDocument infos d])
      else [adjustedDefinition env originalTextDocument embeddedLanguageTextDocument infos d])"


definition stillToPush ::
  "Client \<Rightarrow> TextDocument \<Rightarrow> TextDocument \<Rightarrow> EmbeddedLanguageDocInfos \<Rightarrow>
   Definition \<times> nat \<times> Definition list option \<Rightarrow> Definition list" where
  "stillToPush env originalTextDocument embeddedLanguageTextDocument infos t =
     (case t of (d, k, promise) \<Rightarrow>
        (case promise of
           Some redirection \<Rightarrow> redirection
         | None \<Rightarrow>
             (case redirectionLoop (drop (Suc k) redirectionFunctions) env d of
                Some redirection \<Rightarrow> redirection
              | None \<Rightarrow>
                  [adjustedDefinition env originalTextDocument embeddedLanguageTextDocument infos d])))"

definition outstanding ::
  "Client \<Rightarrow> TextDocument \<Rightarrow> TextDocument \<Rightarrow> EmbeddedLanguageDocInfos \<Rightarrow> ProcState \<Rightarrow>
   Definition multiset" where
  "outstanding env originalTextDocument embeddedLanguageTextDocument infos s =
     mset (result s) +
     sum_list (map (\<lambda>t. mset (stillToPush env originalTextDocument embeddedLanguageTextDocument infos t))
       (pending s))"

section \<open>The completion middleware (client)\<close>

text \<open>
  Modelled from the spec: \<open>mergeArraysDistinctly\<close> is imported from
  \<open>../lib/src/utils/arrays\<close>, which is not among the sources. The spec describes
  the merge as one list, de-duplicated by the key, in which the list scanned first has
  priority on a shared key and first-seen order is preserved: the arrays are scanned in
  the order they are given, and an item is appended unless its key has been seen.
\<close>

definition insertDistinctly :: "('a \<Rightarrow> 'k) \<Rightarrow> 'a \<Rightarrow> 'a list \<Rightarrow> 'a list" where
  "insertDistinctly getKey item acc =
     (if getKey item \<in> set (map getKey acc) then acc else acc @ [item])"

definition mergeArraysDistinctly :: "('a \<Rightarrow> 'k) \<Rightarrow> 'a list list \<Rightarrow> 'a list" where
  "mergeArraysDistinctly getKey arrays =
     fold (\<lambda>array acc. fold (insertDistinctly getKey) array acc) arrays []"

text \<open>
  What the host completion provider (\<open>next\<close>) and the middleware return:
  \<open>undefined\<close>, \<open>null\<close>, an array of items, or a \<open>CompletionList\<close>.
\<close>

datatype CompletionResult =
    CompletionUndefined
  | CompletionNull
  | CompletionArray "CompletionItem list"
  | CompletionList (isIncomplete: bool) (items: "CompletionItem list")

text \<open>\<open>r ?? []\<close>, and \<open>r instanceof CompletionList ? r.items : r\<close> on its value.\<close>

definition orEmptyArray :: "CompletionResult \<Rightarrow> CompletionResult" where
  "orEmptyArray r =
     (case r of CompletionUndefined \<Rightarrow> CompletionArray [] | CompletionNull \<Rightarrow> CompletionArray []
      | _ \<Rightarrow> r)"

definition itemsOrArray :: "CompletionResult \<Rightarrow> CompletionItem list" where
  "itemsOrArray r =
     (case r of CompletionList incomplete its \<Rightarrow> its | CompletionArray its \<Rightarrow> its | _ \<Rightarrow> [])"

text \<open>
  The callback of \<open>pulledCompletionList.items.forEach\<close>. The source mutates the item;
  the model returns it. A single range is replaced by its translation, defined or not;
  an inserting/replacing pair is replaced only when both translations are defined, and
  the callback returns without touching the item otherwise.
\<close>

definition adjustItemRange ::
  "Client \<Rightarrow> TextDocument \<Rightarrow> TextDocument \<Rightarrow> int list \<Rightarrow> CompletionItem \<Rightarrow> CompletionItem" where
  "adjustItemRange env document embeddedLanguageTextDocument indexes item =
     (case item_range item of
        NoRange \<Rightarrow> item
      | SingleRange r \<Rightarrow>
          item\<lparr>item_range :=
            (case getOriginalDocRange env document embeddedLanguageTextDocument indexes r of
               None \<Rightarrow> NoRange
             | Some r' \<Rightarrow> SingleRange r')\<rparr>
      | InsertReplace ins repl \<Rightarrow>
          (case getOriginalDocRange env document embeddedLanguageTextDocument indexes ins of
             None \<Rightarrow> item
           | Some inserting' \<Rightarrow>
               (case getOriginalDocRange env document embeddedLanguageTextDocument indexes repl of
                  None \<Rightarrow> item
                | Some replacing' \<Rightarrow> item\<lparr>item_range := InsertReplace inserting' replacing'\<rparr>)))"

text \<open>
  \<open>middlewareProvideCompletion\<close>, with the host provider as the parameter
  \<open>nextProvider\<close> and \<open>context.triggerCharacter\<close> as \<open>triggerCharacter\<close>. It
  returns the middleware's value and the commands and document openings it issued.
\<close>

definition middlewareProvideCompletion ::
  "Client \<Rightarrow> TextDocument \<Rightarrow> Position \<Rightarrow> string option \<Rightarrow>
   (TextDocument \<Rightarrow> Position \<Rightarrow> CompletionResult) \<Rightarrow> CompletionResult \<times> Call list" where
  "middlewareProvideCompletion env document position triggerCharacter nextProvider =
     (let nextResult = orEmptyArray (nextProvider document position) in
      case getEmbeddedLanguageTypeOnPosition env (uri document) position of
        None \<Rightarrow> (nextResult, [])
      | Some embeddedLanguageType \<Rightarrow>
          (case getEmbeddedLanguageDocInfos env (uri document) embeddedLanguageType of
             None \<Rightarrow> (CompletionUndefined, [])
           | Some embeddedLanguageDocInfos \<Rightarrow>
               (let embeddedLanguageTextDocument =
                      openTextDocument env (info_uri embeddedLanguageDocInfos);
                    adjustedPosition =
                      getEmbeddedLanguageDocPosition env document embeddedLanguageTextDocument
                        (characterIndexes embeddedLanguageDocInfos) position;
                    vdocUri = uri embeddedLanguageTextDocument;
                    pulledCompletionList =
                      executeCompletionItemProvider env vdocUri adjustedPosition triggerCharacter;
                    pulledItems =
                      map (adjustItemRange env document embeddedLanguageTextDocument
                             (characterIndexes embeddedLanguageDocInfos)) pulledCompletionList
                in (CompletionArray
                      (mergeArraysDistinctly label [pulledItems, itemsOrArray nextResult]),
                    [OpenTextDocument (info_uri embeddedLanguageDocInfos),
                     ExecuteCompletionItemProvider vdocUri adjustedPosition triggerCharacter]))))"



section \<open>The definition handler (server)\<close>

text \<open>
  The language-server side: a request carries the uri of the document and a position;
  the handler answers with Locations (uri and range).
\<close>

record TextDocumentPositionParams =
  params_uri :: string
  params_position :: Position

record LspLocation =
  location_uri :: string
  location_range :: Range

record ParsedPath =
  path_root :: string
  path_dir :: string
  path_base :: string
  path_ext :: string
  path_name :: string

record ElementInfo =
  element_name :: string
  element_path :: "ParsedPath option"

record BitbakeSymbolInformation =
  symbol_name :: string
  symbol_kind :: nat
  symbol_location :: LspLocation

text \<open>\<open>SymbolKind.Function\<close> and \<open>SymbolKind.Variable\<close> of the protocol.\<close>

definition SymbolKind_Function :: nat where
  "SymbolKind_Function = 12"

definition SymbolKind_Variable :: nat where
  "SymbolKind_Variable = 13"

record ScanResult =
  symbols :: "BitbakeSymbolInformation list"
  includeHistory :: "ParsedPath list"

text \<open>
  The queries of the analyzer that the handler uses, as parameters; \<open>null\<close> and
  \<open>undefined\<close> are \<open>None\<close>.
\<close>

record Analyzer =
  wordAtPointFromTextPosition :: "TextDocumentPositionParams \<Rightarrow> string option"
  getDocumentTexts :: "string \<Rightarrow> string list option"
  getLastScanResult :: "string \<Rightarrow> ScanResult option"
  getDirectiveStatementKeywordByNodeType :: "TextDocumentPositionParams \<Rightarrow> string option"
  getDirectivePathForPosition :: "TextDocumentPositionParams \<Rightarrow> string option"
  resolveSymbol :: "string \<Rightarrow> BitbakeSymbolInformation list \<Rightarrow> string"
  findExactSymbolAtPoint :: "string \<Rightarrow> Position \<Rightarrow> string \<Rightarrow> BitbakeSymbolInformation option"
  matchSymbol ::
    "BitbakeSymbolInformation \<Rightarrow> BitbakeSymbolInformation list \<Rightarrow> BitbakeSymbolInformation option"
  extractModificationHistoryFromComments :: "BitbakeSymbolInformation \<Rightarrow> LspLocation list"
  isStringContent :: "string \<Rightarrow> int \<Rightarrow> int \<Rightarrow> bool"
  getSymbolsInStringContent :: "string \<Rightarrow> int \<Rightarrow> int \<Rightarrow> BitbakeSymbolInformation list"
  isOverride :: "string \<Rightarrow> int \<Rightarrow> int \<Rightarrow> bool"
  findFilesInProjectScanner :: "string \<Rightarrow> ElementInfo list"
  getGlobalDeclarationSymbols :: "string \<Rightarrow> BitbakeSymbolInformation list"
  getIncludeUrisForUri :: "string \<Rightarrow> string list option"

text \<open>
  The rest of what the handler reads: the classes and configuration files of the project
  scanner's result, \<open>extractRecipeName\<close>, the connection (if one was set) with its
  \<open>sendRequest\<close> from method and parameter to an optional answer, and
  \<open>encodeURI\<close>.
\<close>

record Server =
  analyzer :: Analyzer
  classes :: "ElementInfo list"
  confFiles :: "ElementInfo list"
  extractRecipeName :: "string \<Rightarrow> string"
  connection :: "(string \<Rightarrow> string \<Rightarrow> string option) option"
  encodeURI :: "string \<Rightarrow> string"

text \<open>\<open>s.replace(pattern, replacement)\<close> with a string pattern: the first occurrence.\<close>

fun replaceFirst :: "string \<Rightarrow> string \<Rightarrow> string \<Rightarrow> string" where
  "replaceFirst pat rep [] = (if pat = [] then rep else [])"
| "replaceFirst pat rep (c # cs) =
     (if prefix pat (c # cs) then rep @ drop (length pat) (c # cs)
      else c # replaceFirst pat rep cs)"

definition createDefinitionLocationForPathInfo :: "Server \<Rightarrow> ParsedPath \<Rightarrow> LspLocation" where
  "createDefinitionLocationForPathInfo srv path =
     \<lparr>location_uri = encodeURI srv (''file://'' @ path_dir path @ ''/'' @ path_base path),
      location_range = new_Range 0 0 0 0\<rparr>"

definition getDefinitionForDirectives :: "Server \<Rightarrow> string \<Rightarrow> string \<Rightarrow> LspLocation list" where
  "getDefinitionForDirectives srv directiveStatementKeyword directivePath =
     (if directiveStatementKeyword = ''inherit'' \<or> directiveStatementKeyword = ''require''
         \<or> directiveStatementKeyword = ''include''
      then
        (let elementInfos =
               (if directiveStatementKeyword = ''inherit''
                then filter (\<lambda>bbclass. element_name bbclass = directivePath) (classes srv)
                else findFilesInProjectScanner (analyzer srv) directivePath)
         in concat (map (\<lambda>elementInfo.
                      case element_path elementInfo of
                        Some path \<Rightarrow> [createDefinitionLocationForPathInfo srv path]
                      | None \<Rightarrow> [])
                    elementInfos))
      else [])"

definition getAllDefinitionSymbolsForSymbolAtPoint ::
  "Server \<Rightarrow> string \<Rightarrow> string \<Rightarrow> BitbakeSymbolInformation option \<Rightarrow>
   BitbakeSymbolInformation list" where
  "getAllDefinitionSymbolsForSymbolAtPoint srv u word symbolAtPoint =
     (case symbolAtPoint of
        None \<Rightarrow> []
      | Some atPoint \<Rightarrow>
          (let allDeclarationSymbols =
                 getGlobalDeclarationSymbols (analyzer srv) u @
                 (case getIncludeUrisForUri (analyzer srv) u of
                    None \<Rightarrow> []
                  | Some includeUris \<Rightarrow>
                      concat (map (getGlobalDeclarationSymbols (analyzer srv)) includeUris))
           in filter (\<lambda>symbol. symbol_name symbol = word \<and> symbol_kind symbol = symbol_kind atPoint)
                allDeclarationSymbols))"

text \<open>The position at which the word is looked up.\<close>

definition wordPosition :: "Position \<Rightarrow> Position" where
  "wordPosition position = \<lparr>line = line position, character = max (character position - 1) 0\<rparr>"

text \<open>
  One turn of the loop over the modification history: the container path is resolved
  through the connection, if there is one, and the location's own uri is the fallback.
\<close>

definition resolvedHistoryLocation :: "Server \<Rightarrow> LspLocation \<Rightarrow> LspLocation" where
  "resolvedHistoryLocation srv location =
     (let resolvedLocation =
            (case connection srv of
               None \<Rightarrow> None
             | Some sendRequest \<Rightarrow>
                 sendRequest ''bitbake/resolveContainerPath''
                   (replaceFirst ''file://'' [] (location_uri location)))
      in \<lparr>location_uri = (case resolvedLocation of Some r \<Rightarrow> r | None \<Rightarrow> location_uri location),
          location_range = location_range location\<rparr>)"

text \<open>
  \<open>symbolAtPoint?.kind === SymbolKind.Variable || symbolAtPoint?.kind ===
  SymbolKind.Function\<close>.
\<close>

definition isVariableOrFunction :: "BitbakeSymbolInformation option \<Rightarrow> bool" where
  "isVariableOrFunction symbolAtPoint =
     (case symbolAtPoint of
        None \<Rightarrow> False
      | Some atPoint \<Rightarrow> symbol_kind atPoint = SymbolKind_Variable \<or> symbol_kind atPoint = SymbolKind_Function)"

text \<open>
  \<open>onDefinitionHandler\<close>. Its return type is \<open>Location[] | null\<close>: \<open>None\<close> is
  \<open>null\<close>, and every \<open>return\<close> of the source is a branch of the model.
\<close>

definition onDefinitionHandler ::
  "Server \<Rightarrow> TextDocumentPositionParams \<Rightarrow> LspLocation list option" where
  "onDefinitionHandler srv textDocumentPositionParams =
     (let u = params_uri textDocumentPositionParams;
          position = params_position textDocumentPositionParams;
          word = wordAtPointFromTextPosition (analyzer srv)
                   (textDocumentPositionParams\<lparr>params_position := wordPosition position\<rparr>)
      in case getDocumentTexts (analyzer srv) u of
           None \<Rightarrow> Some []
         | Some documentAsText \<Rightarrow>
             (let lastScanResult = getLastScanResult (analyzer srv) (extractRecipeName srv u)
              in case (getDirectiveStatementKeywordByNodeType (analyzer srv)
                         textDocumentPositionParams,
                       getDirectivePathForPosition (analyzer srv) textDocumentPositionParams) of
                   (Some directiveStatementKeyword, Some directivePath) \<Rightarrow>
                     Some (getDefinitionForDirectives srv directiveStatementKeyword
                       (case lastScanResult of
                          None \<Rightarrow> directivePath
                        | Some scan \<Rightarrow>
                            resolveSymbol (analyzer srv) directivePath (symbols scan)))
                 | _ \<Rightarrow>
                   (case word of
                      None \<Rightarrow> Some []
                    | Some w \<Rightarrow>
                        (let symbolAtPoint = findExactSymbolAtPoint (analyzer srv) u position w
                         in if isVariableOrFunction symbolAtPoint then
                              Some
                                (map symbol_location
                                   (getAllDefinitionSymbolsForSymbolAtPoint srv u w symbolAtPoint)
                                 @ (case (lastScanResult, symbolAtPoint) of
                                      (Some scan, Some atPoint) \<Rightarrow>
                                        (case matchSymbol (analyzer srv) atPoint (symbols scan) of
                                           None \<Rightarrow> []
                                         | Some foundSymbol \<Rightarrow>
                                             map (resolvedHistoryLocation srv)
                                               (extractModificationHistoryFromComments
                                                  (analyzer srv) foundSymbol))
                                    | _ \<Rightarrow> []))
                            else if isStringContent (analyzer srv) u (line position)
                                      (character position)
                            then
                              Some
                                (map (\<lambda>symbol.
                                        \<lparr>location_uri = location_uri (symbol_location symbol),
                                         location_range = new_Range 0 0 0 0\<rparr>)
                                   (getSymbolsInStringContent (analyzer srv) u (line position)
                                      (character position)))
                            else if isOverride (analyzer srv) u (line position)
                                      (character position)
                            then
                              (case (case lastScanResult of
                                       None \<Rightarrow> None
                                     | Some scan \<Rightarrow>
                                         find (\<lambda>includePath.
                                                 path_ext includePath = ''.conf''
                                                 \<and> path_name includePath = w)
                                           (includeHistory scan)) of
                                 Some targetPath \<Rightarrow>
                                   Some [createDefinitionLocationForPathInfo srv targetPath]
                               | None \<Rightarrow>
                                   (case Option.bind
                                           (find (\<lambda>confFile. element_name confFile = w)
                                              (confFiles srv))
                                           element_path of
                                      Some path \<Rightarrow>
                                        Some [createDefinitionLocationForPathInfo srv path]
                                    | None \<Rightarrow> Some []))
                            else Some []))))"

section \<open>A concrete setting\<close>

text \<open>
  A recipe \<open>host.bb\<close> whose python code starts at line 10, and its embedded document
  \<open>host.py\<close>, whose first four lines are the injected imports (so that \<open>d\<close> is on
  line 2 and \<open>e\<close> on line 3): line \<open>l\<close> of the embedded document, from line 4 on,
  is line \<open>l + 6\<close> of the recipe, and the injected lines have no place in the recipe.
\<close>

definition hostDocument :: TextDocument where
  "hostDocument = \<lparr>uri = ''host.bb'', getText = ''''\<rparr>"

definition virtualDocument :: TextDocument where
  "virtualDocument = \<lparr>uri = ''host.py'', getText = ''''\<rparr>"

definition pythonInfos :: EmbeddedLanguageDocInfos where
  "pythonInfos = \<lparr>info_uri = ''host.py'', language = ''python'', characterIndexes = []\<rparr>"

definition bashInfos :: EmbeddedLanguageDocInfos where
  "bashInfos = \<lparr>info_uri = ''host.sh'', language = ''bash'', characterIndexes = []\<rparr>"

definition exampleToEmbedded :: "Position \<Rightarrow> Position option" where
  "exampleToEmbedded p =
     (if line p < 10 then None else Some (new_Position (line p - 6) (character p)))"

definition exampleToHost :: "Range \<Rightarrow> Range option" where
  "exampleToHost r =
     (if line (range_start r) < 4 \<or> line (range_end r) < 4 then None
      else Some (new_Range (line (range_start r) + 6) (character (range_start r))
                  (line (range_end r) + 6) (character (range_end r))))"

definition exampleDefinitions :: "string \<Rightarrow> Position option \<Rightarrow> Definition list" where
  "exampleDefinitions u p =
     (if p = Some dataSmartPosition then
        [Location ''data_smart.py'' (new_Range 30 6 30 15)]
      else if p = Some eventPosition then
        [LocationLink None ''event.py'' (new_Range 40 6 40 11) (Some (new_Range 40 6 40 11))]
      else [Location u (new_Range 4 0 4 3)])"

text \<open>
  The embedded completion provider: \<open>foo\<close> and \<open>bar\<close> without ranges, and after
  a dot three items with ranges, of which \<open>third\<close> has an inserting range that starts
  in the injected lines.
\<close>

definition exampleCompletions ::
  "string \<Rightarrow> Position option \<Rightarrow> string option \<Rightarrow> CompletionItem list" where
  "exampleCompletions u p trigger =
     (if trigger = Some ''.'' then
        [\<lparr>label = ''first'', detail = ''embedded'',
          item_range = SingleRange (new_Range 6 2 6 4)\<rparr>,
         \<lparr>label = ''second'', detail = ''embedded'',
          item_range = InsertReplace (new_Range 6 2 6 4) (new_Range 6 2 6 8)\<rparr>,
         \<lparr>label = ''third'', detail = ''embedded'',
          item_range = InsertReplace (new_Range 3 0 6 4) (new_Range 6 2 6 8)\<rparr>]
      else
        [\<lparr>label = ''foo'', detail = ''embedded'', item_range = NoRange\<rparr>,
         \<lparr>label = ''bar'', detail = ''embedded'', item_range = NoRange\<rparr>])"

definition exampleClient :: Client where
  "exampleClient =
     \<lparr>getEmbeddedLanguageTypeOnPosition =
        (\<lambda>u p. if 20 \<le> line p then Some ''bash''
               else if 10 \<le> line p then Some ''python'' else None),
      getEmbeddedLanguageDocInfos =
        (\<lambda>u t. if t = ''python'' then Some pythonInfos else None),
      openTextDocument = (\<lambda>u. \<lparr>uri = u, getText = ''''\<rparr>),
      getEmbeddedLanguageDocPosition = (\<lambda>orig emb indexes p. exampleToEmbedded p),
      getOriginalDocRange = (\<lambda>orig emb indexes r. exampleToHost r),
      executeDefinitionProvider = exampleDefinitions,
      executeCompletionItemProvider = exampleCompletions\<rparr>"

section \<open>A concrete project for the definition handler\<close>

text \<open>
  A recipe \<open>recipe.bb\<close> known to the analyzer: line 1 inherits the class
  \<open>cmake\<close>, line 3 has the override \<open>qemux86\<close>, for which no configuration file
  is known, line 5 the variable \<open>FOO\<close>, and the other lines have no word.
\<close>

definition fooSymbol :: BitbakeSymbolInformation where
  "fooSymbol =
     \<lparr>symbol_name = ''FOO'', symbol_kind = 13,
      symbol_location = \<lparr>location_uri = ''recipe.bb'', location_range = new_Range 5 0 5 3\<rparr>\<rparr>"

definition exampleAnalyzer :: Analyzer where
  "exampleAnalyzer =
     \<lparr>wordAtPointFromTextPosition =
        (\<lambda>p. if line (params_position p) = 3 then Some ''qemux86''
             else if line (params_position p) = 5 then Some ''FOO'' else None),
      getDocumentTexts = (\<lambda>u. if u = ''recipe.bb'' then Some [] else None),
      getLastScanResult = (\<lambda>recipe. None),
      getDirectiveStatementKeywordByNodeType =
        (\<lambda>p. if line (params_position p) = 1 then Some ''inherit'' else None),
      getDirectivePathForPosition =
        (\<lambda>p. if line (params_position p) = 1 then Some ''cmake'' else None),
      resolveSymbol = (\<lambda>path syms. path),
      findExactSymbolAtPoint = (\<lambda>u p w. if w = ''FOO'' then Some fooSymbol else None),
      matchSymbol = (\<lambda>symbol syms. None),
      extractModificationHistoryFromComments = (\<lambda>symbol. []),
      isStringContent = (\<lambda>u l c. False),
      getSymbolsInStringContent = (\<lambda>u l c. []),
      isOverride = (\<lambda>u l c. l = 3),
      findFilesInProjectScanner = (\<lambda>path. []),
      getGlobalDeclarationSymbols = (\<lambda>u. [fooSymbol]),
      getIncludeUrisForUri = (\<lambda>u. None)\<rparr>"

definition exampleServer :: Server where
  "exampleServer =
     \<lparr>analyzer = exampleAnalyzer,
      classes =
        [\<lparr>element_name = ''cmake'',
          element_path =
            Some \<lparr>path_root = ''/'', path_dir = ''/poky/classes'', path_base = ''cmake.bbclass'',
                  path_ext = ''.bbclass'', path_name = ''cmake''\<rparr>\<rparr>],
      confFiles =
        [\<lparr>element_name = ''qemuarm'',
          element_path =
            Some \<lparr>path_root = ''/'', path_dir = ''/poky/conf'', path_base = ''qemuarm.conf'',
                  path_ext = ''.conf'', path_name = ''qemuarm''\<rparr>\<rparr>],
      extractRecipeName = (\<lambda>u. u),
      connection = None,
      encodeURI = (\<lambda>u. u)\<rparr>"

section \<open>The position translator\<close>

text \<open>
  Modelled from the spec: the positions of a document by its line breaks. The documents'
  \<open>positionAt\<close> and \<open>offsetAt\<close> belong to the editor and are not among the
  sources; the spec has line and character computed by re-scanning the text for
  line-break boundaries, offsets counted in characters. An offset past the end gives the
  position of the end, a line or character past the end gives the end of the text or of
  the line.
\<close>

definition lineBreak :: char where
  "lineBreak = CHR 0x0A"

fun positionOf :: "string \<Rightarrow> nat \<Rightarrow> nat \<times> nat" where
  "positionOf str 0 = (0, 0)"
| "positionOf [] (Suc n) = (0, 0)"
| "positionOf (c # cs) (Suc n) =
     (case positionOf cs n of
        (l, ch) \<Rightarrow>
          if c = lineBreak then (Suc l, ch) else (l, if l = 0 then Suc ch else ch))"

fun offsetOf :: "string \<Rightarrow> nat \<Rightarrow> nat \<Rightarrow> nat" where
  "offsetOf [] l ch = 0"
| "offsetOf (c # cs) 0 0 = 0"
| "offsetOf (c # cs) 0 (Suc ch) = (if c = lineBreak then 0 else Suc (offsetOf cs 0 ch))"
| "offsetOf (c # cs) (Suc l) ch =
     Suc (if c = lineBreak then offsetOf cs l ch else offsetOf cs (Suc l) ch)"

fun validPos :: "string \<Rightarrow> nat \<Rightarrow> nat \<Rightarrow> bool" where
  "validPos [] l ch = (l = 0 \<and> ch = 0)"
| "validPos (c # cs) 0 0 = True"
| "validPos (c # cs) 0 (Suc ch) = (c \<noteq> lineBreak \<and> validPos cs 0 ch)"
| "validPos (c # cs) (Suc l) ch =
     (if c = lineBreak then validPos cs l ch else validPos cs (Suc l) ch)"

text \<open>
  Modelled from the spec: the same scan on the editor's positions (\<open>positionAt\<close> and
  \<open>offsetAt\<close> of a document, not among the sources), and the positions that exist in
  a text: a line the text has and a character within that line or at its end.
\<close>

definition positionAt :: "string \<Rightarrow> nat \<Rightarrow> Position" where
  "positionAt str offset =
     (case positionOf str offset of (l, ch) \<Rightarrow> \<lparr>line = int l, character = int ch\<rparr>)"

definition offsetAt :: "string \<Rightarrow> Position \<Rightarrow> nat" where
  "offsetAt str p = offsetOf str (nat (line p)) (nat (character p))"

definition validPosition :: "string \<Rightarrow> Position \<Rightarrow> bool" where
  "validPosition str p =
     (0 \<le> line p \<and> 0 \<le> character p \<and> validPos str (nat (line p)) (nat (character p)))"

text \<open>
  Modelled from the spec: the Position/Range Translator, \<open>toEmbedded\<close> and
  \<open>toHost\<close> (\<open>getEmbeddedLanguageDocPosition\<close> and \<open>getOriginalDocRange\<close> of
  \<open>./utils\<close>, which is not among the sources). Entry \<open>i\<close> of the table is the
  offset in the host document of the character at offset \<open>i\<close> of the virtual
  document, or a negative number where there is none. \<open>toEmbedded\<close> locates the
  nearest mapped offset at or before the host offset of the position (the first of equal
  ones) and gives the position of its index in the virtual document; it fails when no
  mapped offset is at or before it. \<open>toHost\<close> maps both ends of a range through the
  table and fails when one of them has no host offset.
\<close>

fun nearestFrom :: "int list \<Rightarrow> int \<Rightarrow> nat \<Rightarrow> (nat \<times> int) option \<Rightarrow> (nat \<times> int) option" where
  "nearestFrom [] h i best = best"
| "nearestFrom (entry # entries) h i best =
     nearestFrom entries h (Suc i)
       (if 0 \<le> entry \<and> entry \<le> h \<and> (case best of None \<Rightarrow> True | Some (j, b) \<Rightarrow> b < entry)
        then Some (i, entry) else best)"

definition toEmbedded ::
  "TextDocument \<Rightarrow> TextDocument \<Rightarrow> int list \<Rightarrow> Position \<Rightarrow> Position option" where
  "toEmbedded hostDoc virtualDoc table hostPosition =
     (case nearestFrom table (int (offsetAt (getText hostDoc) hostPosition)) 0 None of
        None \<Rightarrow> None
      | Some (i, hostOffset) \<Rightarrow> Some (positionAt (getText virtualDoc) i))"

definition toHostPosition ::
  "TextDocument \<Rightarrow> TextDocument \<Rightarrow> int list \<Rightarrow> Position \<Rightarrow> Position option" where
  "toHostPosition hostDoc virtualDoc table virtualPosition =
     (let i = offsetAt (getText virtualDoc) virtualPosition
      in if i < length table \<and> 0 \<le> table ! i
         then Some (positionAt (getText hostDoc) (nat (table ! i))) else None)"

definition toHost ::
  "TextDocument \<Rightarrow> TextDocument \<Rightarrow> int list \<Rightarrow> Range \<Rightarrow> Range option" where
  "toHost hostDoc virtualDoc table virtualRange =
     (case (toHostPosition hostDoc virtualDoc table (range_start virtualRange),
            toHostPosition hostDoc virtualDoc table (range_end virtualRange)) of
        (Some s, Some e) \<Rightarrow> Some \<lparr>range_start = s, range_end = e\<rparr>
      | _ \<Rightarrow> None)"

text \<open>
  Modelled from the spec: a host position inside an embedded span, the positions the
  round trip is claimed for (the translators are a left-inverse pair on mapped offsets):
  a position of the host text whose offset is a mapped offset of the table.
\<close>

definition insideEmbeddedSpan :: "TextDocument \<Rightarrow> int list \<Rightarrow> Position \<Rightarrow> bool" where
  "insideEmbeddedSpan hostDoc table hostPosition =
     (validPosition (getText hostDoc) hostPosition
      \<and> int (offsetAt (getText hostDoc) hostPosition) \<in> set table)"

text \<open>
  A host text of two lines, \<open>ab\<close> and \<open>cd\<close>, whose second line is embedded; the
  virtual text has an injected first line \<open>#\<close> and then \<open>cd\<close>.
\<close>

definition roundTripHost :: TextDocument where
  "roundTripHost =
     \<lparr>uri = ''host.bb'', getText = [CHR ''a'', CHR ''b'', lineBreak, CHR ''c'', CHR ''d'']\<rparr>"

definition roundTripVirtual :: TextDocument where
  "roundTripVirtual =
     \<lparr>uri = ''host.py'', getText = [CHR ''#'', lineBreak, CHR ''c'', CHR ''d'']\<rparr>"

definition roundTripTable :: "int list" where
  "roundTripTable = [- 1, - 1, 3, 4]"

section \<open>The callbacks of \<open>processDefinitions\<close> push what they should\<close>

lemma sum_list_remove_nth:
  fixes f :: "'a \<Rightarrow> 'b::comm_monoid_add"
  assumes "i < length xs"
  shows "sum_list (map f (take i xs @ drop (Suc i) xs)) + f (xs ! i) = sum_list (map f xs)"
proof -
  from assms have "xs = take i xs @ xs ! i # drop (Suc i) xs"
    by (rule id_take_nth_drop)
  then have "sum_list (map f xs) = sum_list (map f (take i xs @ xs ! i # drop (Suc i) xs))"
    by simp
  then show ?thesis
    by (simp add: ac_simps)
qed

lemma redirectionLoop_drop:
  "k < length fs \<Longrightarrow>
   redirectionLoop (drop k fs) env d =
     (case snd ((fs ! k) env d) of Some r \<Rightarrow> Some r
      | None \<Rightarrow> redirectionLoop (drop (Suc k) fs) env d)"
  by (simp flip: Cons_nth_drop_Suc)

lemma await_outstanding:
  "outstanding env orig emb infos (awaitRedirection env orig emb infos d k s) =
   outstanding env orig emb infos s +
   mset (case redirectionLoop (drop k redirectionFunctions) env d of
           Some r \<Rightarrow> r | None \<Rightarrow> [adjustedDefinition env orig emb infos d])"
proof (cases "k < length redirectionFunctions")
  case True
  then show ?thesis
    by (simp add: awaitRedirection_def outstanding_def stillToPush_def redirectionLoop_drop
        split: prod.splits option.splits)
next
  case False
  then show ?thesis
    by (simp add: awaitRedirection_def finishDefinition_def outstanding_def adjustedDefinition_def)
qed

lemma start_outstanding:
  "outstanding env orig emb infos (startDefinition env orig emb infos d s) =
   outstanding env orig emb infos s + mset (callbackResult env orig emb infos d)"
proof -
  have "outstanding env orig emb infos (awaitRedirection env orig emb infos d 0 s) =
        outstanding env orig emb infos s +
        mset (case redirectionLoop redirectionFunctions env d of
           Some r \<Rightarrow> r | None \<Rightarrow> [adjustedDefinition env orig emb infos d])"
    using await_outstanding [of env orig emb infos d 0 s] by simp
  then show ?thesis
    by (simp add: startDefinition_def callbackResult_def finishDefinition_def
        adjustedDefinition_def outstanding_def)
qed

lemma resume_outstanding:
  assumes "i < length (pending s)"
  shows "outstanding env orig emb infos (resumeDefinition env orig emb infos i s) =
         outstanding env orig emb infos s"
proof -
  obtain d k p where t: "pending s ! i = (d, k, p)"
    by (cases "pending s ! i") auto
  let ?f = "\<lambda>t. mset (stillToPush env orig emb infos t)"
  let ?s' = "s\<lparr>pending := take i (pending s) @ drop (Suc i) (pending s)\<rparr>"
  have split: "outstanding env orig emb infos ?s' + ?f (d, k, p) = outstanding env orig emb infos s"
    using sum_list_remove_nth [OF assms, of ?f] t
    by (simp add: outstanding_def ac_simps)
  show ?thesis
  proof (cases p)
    case (Some r)
    have "resumeDefinition env orig emb infos i s = ?s'\<lparr>result := result ?s' @ r\<rparr>"
      using t Some by (simp add: resumeDefinition_def Let_def)
    then show ?thesis using split Some
      by (simp add: outstanding_def stillToPush_def ac_simps)
  next
    case None
    have "resumeDefinition env orig emb infos i s = awaitRedirection env orig emb infos d (Suc k) ?s'"
      using t None by (simp add: resumeDefinition_def Let_def)
    then show ?thesis using split None await_outstanding [of env orig emb infos d "Suc k" ?s']
      by (simp add: stillToPush_def)
  qed
qed

lemma run_done:
  "pending s = [] \<Longrightarrow> run env orig emb infos schedule s = s"
  by (subst run.simps) simp

lemma run_step_Nil:
  "pending s \<noteq> [] \<Longrightarrow>
   run env orig emb infos [] s = run env orig emb infos [] (resumeDefinition env orig emb infos 0 s)"
  by (subst run.simps) simp

lemma run_step_Cons:
  "pending s \<noteq> [] \<Longrightarrow>
   run env orig emb infos (i # rest) s =
   run env orig emb infos rest (resumeDefinition env orig emb infos (i mod length (pending s)) s)"
  by (subst run.simps) simp

lemma run_outstanding:
  "outstanding env orig emb infos (run env orig emb infos schedule s) =
   outstanding env orig emb infos s"
proof (induction env orig emb infos schedule s rule: run.induct)
  case (1 env orig emb infos schedule s)
  show ?case
  proof (cases "pending s = []")
    case True
    then show ?thesis by (simp add: run_done run_step_Nil run_step_Cons)
  next
    case False
    then have len: "0 < length (pending s)" by simp
    show ?thesis
    proof (cases schedule)
      case Nil
      then show ?thesis using False "1.IH"(1) resume_outstanding [of 0 s env orig emb infos] len
        by (simp add: run_done run_step_Nil run_step_Cons)
    next
      case (Cons i rest)
      have "i mod length (pending s) < length (pending s)" using len by simp
      then show ?thesis using Cons False "1.IH"(2) resume_outstanding
        by (simp add: run_done run_step_Nil run_step_Cons)
    qed
  qed
qed

lemma run_pending:
  "pending (run env orig emb infos schedule s) = []"
proof (induction env orig emb infos schedule s rule: run.induct)
  case (1 env orig emb infos schedule s)
  show ?case
  proof (cases "pending s = []")
    case True
    then show ?thesis by (simp add: run_done run_step_Nil run_step_Cons)
  next
    case False
    then show ?thesis using "1.IH"
      by (cases schedule) (simp_all add: run_step_Nil run_step_Cons)
  qed
qed

lemma fold_start_outstanding:
  "outstanding env orig emb infos (fold (startDefinition env orig emb infos) ds s) =
   outstanding env orig emb infos s + mset (concat (map (callbackResult env orig emb infos) ds))"
  by (induction ds arbitrary: s) (simp_all add: start_outstanding ac_simps)

lemma processDefinitions_mset:
  "mset (result (processDefinitions env schedule ds orig emb infos)) =
   mset (concat (map (callbackResult env orig emb infos) ds))"
proof -
  let ?final = "processDefinitions env schedule ds orig emb infos"
  have "pending ?final = []"
    by (simp add: processDefinitions_def run_pending)
  then have "mset (result ?final) = outstanding env orig emb infos ?final"
    by (simp add: outstanding_def)
  also have "\<dots> = outstanding env orig emb infos initialState
      + mset (concat (map (callbackResult env orig emb infos) ds))"
    by (simp add: processDefinitions_def run_outstanding fold_start_outstanding)
  finally show ?thesis
    by (simp add: outstanding_def initialState_def)
qed

section \<open>Evaluation on the concrete setting\<close>

lemmas example_defs =
  hostDocument_def virtualDocument_def pythonInfos_def bashInfos_def exampleToEmbedded_def
  exampleToHost_def exampleDefinitions_def exampleCompletions_def exampleClient_def
  new_Range_def new_Position_def
  dRange_def eRange_def dataSmartPosition_def eventPosition_def

section \<open>Adjusting the ranges of one definition\<close>

text \<open>
  Claim C8 says that an adjusted LocationLink has its \<open>targetSelectionRange\<close> set to
  the translation of its own original \<open>targetSelectionRange\<close>. The source assigns
  \<open>newTargetRange\<close> instead: here the target range is lines 5 to 7 and the selection
  range a name on line 5; the selection range translates to line 11, characters 4 to 9,
  and after the adjustment it is the translated target range, lines 11 to 13.
\<close>

theorem ajustDefinitionRange_selection_takes_target_range:
  "ajustDefinitionRange exampleClient
     (LocationLink None ''host.bb'' (new_Range 5 0 7 0) (Some (new_Range 5 4 5 9)))
     hostDocument virtualDocument []
   = LocationLink None ''host.bb'' (new_Range 11 0 13 0) (Some (new_Range 11 0 13 0))
   \<and> getOriginalDocRange exampleClient hostDocument virtualDocument [] (new_Range 5 4 5 9)
       = Some (new_Range 11 4 11 9)"
  by (simp add: ajustDefinitionRange_def Let_def example_defs)

lemma await_zero:
  "awaitRedirection env orig emb infos d 0 s =
     s\<lparr>pending := pending s @ [(d, 0, snd (getDefinitionOfD env d))],
       calls := calls s @ fst (getDefinitionOfD env d)\<rparr>"
  by (simp add: awaitRedirection_def redirectionFunctions_def split: prod.splits)

lemma await_one:
  "awaitRedirection env orig emb infos d (Suc 0) s =
     s\<lparr>pending := pending s @ [(d, Suc 0, snd (getDefinitionOfE env d))],
       calls := calls s @ fst (getDefinitionOfE env d)\<rparr>"
  by (simp add: awaitRedirection_def redirectionFunctions_def split: prod.splits)

lemma await_two:
  "awaitRedirection env orig emb infos d (Suc (Suc 0)) s = finishDefinition env orig emb infos d s"
  by (simp add: awaitRedirection_def redirectionFunctions_def)

section \<open>Definitions whose range has no place in the original document\<close>

text \<open>
  Claim C1 as stated (an entry on the embedded document whose range fails to translate is
  dropped, the list one shorter) fails: the entry on line 1 of the embedded document, an
  injected line, is returned, with the uri of the original document and its range as it
  was.
\<close>

theorem untranslated_definition_is_returned:
  "getDefinitionUri (Location ''host.py'' (new_Range 1 0 1 6)) = info_uri pythonInfos
   \<and> getOriginalDocRange exampleClient hostDocument virtualDocument (characterIndexes pythonInfos)
         (new_Range 1 0 1 6) = None
   \<and> result (processDefinitions exampleClient [] [Location ''host.py'' (new_Range 1 0 1 6)]
         hostDocument virtualDocument pythonInfos)
       = [Location ''host.bb'' (new_Range 1 0 1 6)]"
  by (simp add: processDefinitions_def startDefinition_def initialState_def
        checkIsDefinitionUriEqual_def getDefinitionUri_def await_zero await_one await_two
        run_step_Nil run_done resumeDefinition_def getDefinitionOfD_def getDefinitionOfE_def
        redirectDefinition_def checkIsDefinitionRangeEqual_def finishDefinition_def
        changeDefinitionUri_def ajustDefinitionRange_def Let_def example_defs)

lemma getDefinitionOfD_None:
  "\<not> checkIsDefinitionRangeEqual d dRange \<Longrightarrow> getDefinitionOfD env d = ([], None)"
  by (simp add: getDefinitionOfD_def redirectDefinition_def)

lemma getDefinitionOfE_None:
  "\<not> checkIsDefinitionRangeEqual d eRange \<Longrightarrow> getDefinitionOfE env d = ([], None)"
  by (simp add: getDefinitionOfE_def redirectDefinition_def)

lemma range_equal_unique:
  "checkIsDefinitionRangeEqual d r \<Longrightarrow> checkIsDefinitionRangeEqual d r' \<longleftrightarrow> r' = r"
  by (cases d) (auto simp add: checkIsDefinitionRangeEqual_def)

lemma callbackResult_not_redirected:
  assumes "checkIsDefinitionUriEqual d (info_uri infos)"
    and "checkIsDefinitionRangeEqual d r"
    and "language infos \<noteq> ''python'' \<or> (r \<noteq> dRange \<and> r \<noteq> eRange)"
  shows "callbackResult env orig emb infos d = [adjustedDefinition env orig emb infos d]"
  using assms
  by (auto simp add: callbackResult_def redirectionFunctions_def getDefinitionOfD_None
      getDefinitionOfE_None range_equal_unique)

lemma adjustedDefinition_untranslated:
  assumes "checkIsDefinitionRangeEqual d r"
    and "getOriginalDocRange env orig emb (characterIndexes infos) r = None"
  shows "getDefinitionUri (adjustedDefinition env orig emb infos d) = uri orig
       \<and> checkIsDefinitionRangeEqual (adjustedDefinition env orig emb infos d) r
       \<and> is_Location (adjustedDefinition env orig emb infos d) = is_Location d"
  using assms
  by (cases d)
     (auto simp add: adjustedDefinition_def changeDefinitionUri_def ajustDefinitionRange_def
        checkIsDefinitionRangeEqual_def getDefinitionUri_def Let_def split: option.splits)

lemma processDefinitions_set:
  "set (result (processDefinitions env schedule ds orig emb infos)) =
   (\<Union>d\<in>set ds. set (callbackResult env orig emb infos d))"
proof -
  have "set_mset (mset (result (processDefinitions env schedule ds orig emb infos))) =
        set_mset (mset (concat (map (callbackResult env orig emb infos) ds)))"
    by (simp only: processDefinitions_mset)
  then show ?thesis by simp
qed

lemma processDefinitions_single:
  assumes "callbackResult env orig emb infos d = [e]"
  shows "result (processDefinitions env schedule [d] orig emb infos) = [e]"
proof -
  have "mset (result (processDefinitions env schedule [d] orig emb infos)) = {#e#}"
    using assms by (simp add: processDefinitions_mset)
  then show ?thesis by simp
qed

text \<open>
  Claim C1, amended: an entry on the embedded document that no redirection replaces and
  whose range (the target range of a LocationLink) does not translate is kept, not
  dropped: processed alone it gives a list of one entry, and in any list, under any
  completion timing, the returned list holds an entry of the same shape with the uri of
  the original document and the range left as it was.
\<close>

theorem definition_kept_when_translation_fails:
  assumes "checkIsDefinitionUriEqual d (info_uri infos)"
    and "checkIsDefinitionRangeEqual d r"
    and "getOriginalDocRange env orig emb (characterIndexes infos) r = None"
    and "language infos \<noteq> ''python'' \<or> (r \<noteq> dRange \<and> r \<noteq> eRange)"
    and "d \<in> set ds"
  shows "\<exists>e. getDefinitionUri e = uri orig \<and> checkIsDefinitionRangeEqual e r
           \<and> is_Location e = is_Location d
           \<and> result (processDefinitions env schedule [d] orig emb infos) = [e]
           \<and> e \<in> set (result (processDefinitions env schedule ds orig emb infos))"
proof -
  let ?e = "adjustedDefinition env orig emb infos d"
  have cb: "callbackResult env orig emb infos d = [?e]"
    using assms(1,2,4) by (rule callbackResult_not_redirected)
  have "?e \<in> set (result (processDefinitions env schedule ds orig emb infos))"
  proof -
    have "?e \<in> set (callbackResult env orig emb infos d)"
      by (simp add: cb)
    with assms(5) show ?thesis
      unfolding processDefinitions_set by blast
  qed
  moreover have "result (processDefinitions env schedule [d] orig emb infos) = [?e]"
    using cb by (rule processDefinitions_single)
  ultimately show ?thesis
    using adjustedDefinition_untranslated [OF assms(2,3)] by blast
qed

theorem definition_kept_when_translation_fails_witness:
  "\<exists>e. getDefinitionUri e = uri hostDocument
      \<and> checkIsDefinitionRangeEqual e (new_Range 1 0 1 6)
      \<and> is_Location e = is_Location (Location ''host.py'' (new_Range 1 0 1 6))
      \<and> result (processDefinitions exampleClient [0] [Location ''host.py'' (new_Range 1 0 1 6)]
            hostDocument virtualDocument pythonInfos) = [e]
      \<and> e \<in> set (result (processDefinitions exampleClient [0]
            [Location ''lib.py'' (new_Range 8 0 8 3), Location ''host.py'' (new_Range 1 0 1 6)]
            hostDocument virtualDocument pythonInfos))"
  by (rule definition_kept_when_translation_fails [where r = "new_Range 1 0 1 6"])
     (simp_all add: checkIsDefinitionUriEqual_def getDefinitionUri_def
        checkIsDefinitionRangeEqual_def example_defs)

section \<open>The order of the returned list\<close>






lemmas process_eval =
  processDefinitions_def startDefinition_def initialState_def
  checkIsDefinitionUriEqual_def getDefinitionUri_def await_zero await_one await_two
  run_step_Nil run_step_Cons run_done resumeDefinition_def getDefinitionOfD_def
  getDefinitionOfE_def redirectDefinition_def checkIsDefinitionRangeEqual_def
  finishDefinition_def changeDefinitionUri_def ajustDefinitionRange_def
  convertToSameDefinitionType_def Let_def


text \<open>
  With two entries that are both redirected, the order of the returned list is the order
  in which the two redirection commands complete.
\<close>

lemma completion_order_decides:
  "result (processDefinitions exampleClient []
      [Location ''host.py'' dRange, Location ''host.py'' eRange]
      hostDocument virtualDocument pythonInfos)
     = [Location ''data_smart.py'' (new_Range 30 6 30 15),
        Location ''event.py'' (new_Range 40 6 40 11)]
   \<and> result (processDefinitions exampleClient [1, 1]
      [Location ''host.py'' dRange, Location ''host.py'' eRange]
      hostDocument virtualDocument pythonInfos)
     = [Location ''event.py'' (new_Range 40 6 40 11),
        Location ''data_smart.py'' (new_Range 30 6 30 15)]"
  by (simp add: process_eval example_defs)

section \<open>Redirection of \<open>d\<close> and \<open>e\<close>\<close>

lemma run_single:
  "pending s = [t] \<Longrightarrow>
   run env orig emb infos schedule s =
   run env orig emb infos (tl schedule) (resumeDefinition env orig emb infos 0 s)"
  by (cases schedule) (simp_all add: run_step_Nil run_step_Cons)

lemma dRange_neq_eRange: "dRange \<noteq> eRange"
  by (simp add: dRange_def eRange_def new_Range_def new_Position_def)

lemma process_redirected_d:
  assumes "language infos = ''python''"
    and "checkIsDefinitionUriEqual d (info_uri infos)"
    and "checkIsDefinitionRangeEqual d dRange"
  shows "processDefinitions env schedule [d] orig emb infos =
     \<lparr>pending = [],
      result = map (convertToSameDefinitionType d)
                 (executeDefinitionProvider env (info_uri infos) (Some dataSmartPosition)),
      calls = [ExecuteDefinitionProvider (info_uri infos) (Some dataSmartPosition)]\<rparr>"
proof -
  let ?r = "map (convertToSameDefinitionType d)
                 (executeDefinitionProvider env (info_uri infos) (Some dataSmartPosition))"
  let ?c = "[ExecuteDefinitionProvider (info_uri infos) (Some dataSmartPosition)]"
  let ?s = "\<lparr>pending = [(d, 0, Some ?r)], result = [], calls = ?c\<rparr>"
  have u: "getDefinitionUri d = info_uri infos"
    using assms(2) by (simp add: checkIsDefinitionUriEqual_def)
  have started: "startDefinition env orig emb infos d initialState = ?s"
    using assms u
    by (simp add: startDefinition_def await_zero getDefinitionOfD_def redirectDefinition_def
        initialState_def Let_def)
  have "run env orig emb infos schedule ?s =
        run env orig emb infos (tl schedule) (resumeDefinition env orig emb infos 0 ?s)"
    by (rule run_single) simp
  also have "resumeDefinition env orig emb infos 0 ?s = \<lparr>pending = [], result = ?r, calls = ?c\<rparr>"
    by (simp add: resumeDefinition_def)
  finally show ?thesis
    by (simp add: processDefinitions_def started run_done)
qed

lemma process_redirected_e:
  assumes "language infos = ''python''"
    and "checkIsDefinitionUriEqual d (info_uri infos)"
    and "checkIsDefinitionRangeEqual d eRange"
  shows "processDefinitions env schedule [d] orig emb infos =
     \<lparr>pending = [],
      result = map (convertToSameDefinitionType d)
                 (executeDefinitionProvider env (info_uri infos) (Some eventPosition)),
      calls = [ExecuteDefinitionProvider (info_uri infos) (Some eventPosition)]\<rparr>"
proof -
  let ?r = "map (convertToSameDefinitionType d)
                 (executeDefinitionProvider env (info_uri infos) (Some eventPosition))"
  let ?c = "[ExecuteDefinitionProvider (info_uri infos) (Some eventPosition)]"
  let ?s0 = "\<lparr>pending = [(d, 0, None)], result = [], calls = []\<rparr>"
  let ?s1 = "\<lparr>pending = [(d, Suc 0, Some ?r)], result = [], calls = ?c\<rparr>"
  have u: "getDefinitionUri d = info_uri infos"
    using assms(2) by (simp add: checkIsDefinitionUriEqual_def)
  have notd: "\<not> checkIsDefinitionRangeEqual d dRange"
    using assms(3) dRange_neq_eRange by (simp add: range_equal_unique)
  have started: "startDefinition env orig emb infos d initialState = ?s0"
    using assms notd
    by (simp add: startDefinition_def await_zero getDefinitionOfD_None initialState_def)
  have "run env orig emb infos schedule ?s0 =
        run env orig emb infos (tl schedule) (resumeDefinition env orig emb infos 0 ?s0)"
    by (rule run_single) simp
  also have "resumeDefinition env orig emb infos 0 ?s0 = ?s1"
    using assms(3) u
    by (simp add: resumeDefinition_def await_one getDefinitionOfE_def redirectDefinition_def Let_def)
  also have "run env orig emb infos (tl schedule) ?s1 =
        run env orig emb infos (tl (tl schedule)) (resumeDefinition env orig emb infos 0 ?s1)"
    by (rule run_single) simp
  also have "resumeDefinition env orig emb infos 0 ?s1 = \<lparr>pending = [], result = ?r, calls = ?c\<rparr>"
    by (simp add: resumeDefinition_def)
  finally show ?thesis
    by (simp add: processDefinitions_def started run_done)
qed

lemma convert_same_shape:
  "is_Location (convertToSameDefinitionType d x) = is_Location d"
  by (cases x) (simp_all add: convertToSameDefinitionType_def)

lemma callbackResult_redirected:
  assumes "language infos = ''python''"
    and "checkIsDefinitionUriEqual d (info_uri infos)"
    and "(checkIsDefinitionRangeEqual d dRange \<and> p = dataSmartPosition)
         \<or> (checkIsDefinitionRangeEqual d eRange \<and> p = eventPosition)"
  shows "callbackResult env orig emb infos d =
           map (convertToSameDefinitionType d)
             (executeDefinitionProvider env (info_uri infos) (Some p))"
proof -
  have u: "getDefinitionUri d = info_uri infos"
    using assms(2) by (simp add: checkIsDefinitionUriEqual_def)
  from assms(3) show ?thesis
  proof
    assume "checkIsDefinitionRangeEqual d dRange \<and> p = dataSmartPosition"
    then show ?thesis using assms(1,2) u
      by (simp add: callbackResult_def redirectionFunctions_def getDefinitionOfD_def
          redirectDefinition_def Let_def)
  next
    assume e: "checkIsDefinitionRangeEqual d eRange \<and> p = eventPosition"
    then have "\<not> checkIsDefinitionRangeEqual d dRange"
      using dRange_neq_eRange range_equal_unique [of d eRange dRange] by auto
    then show ?thesis using e assms(1,2) u
      by (simp add: callbackResult_def redirectionFunctions_def getDefinitionOfD_None
          getDefinitionOfE_def redirectDefinition_def Let_def)
  qed
qed

lemma callbackResult_in_result:
  assumes "d \<in> set ds"
  shows "mset (callbackResult env orig emb infos d)
           \<subseteq># mset (result (processDefinitions env schedule ds orig emb infos))"
proof -
  have "mset (f d) \<subseteq># mset (concat (map f ds))" for f :: "Definition \<Rightarrow> Definition list"
    using assms by (induction ds) (auto intro: subset_mset.add_increasing)
  then show ?thesis by (simp add: processDefinitions_mset)
qed

text \<open>
  Claim C6: on a python embedded document, an entry on that document whose range is
  \<open>dRange\<close> (resp. \<open>eRange\<close>) is replaced by what the definition provider returns
  on the embedded document at \<open>dataSmartPosition\<close> (resp. \<open>eventPosition\<close>), each
  result converted to the shape of the entry; that list is returned as it is (one hop:
  exactly one command is issued and its results are neither redirected nor adjusted).
  In a list of several entries, under every completion timing, the returned list holds
  these results in place of the entry.
\<close>

theorem redirected_definition_one_hop:
  assumes "language infos = ''python''"
    and "checkIsDefinitionUriEqual d (info_uri infos)"
    and "(checkIsDefinitionRangeEqual d dRange \<and> p = dataSmartPosition)
         \<or> (checkIsDefinitionRangeEqual d eRange \<and> p = eventPosition)"
    and "d \<in> set ds"
  shows "result (processDefinitions env schedule [d] orig emb infos) =
           map (convertToSameDefinitionType d)
             (executeDefinitionProvider env (info_uri infos) (Some p))
       \<and> calls (processDefinitions env schedule [d] orig emb infos) =
           [ExecuteDefinitionProvider (info_uri infos) (Some p)]
       \<and> (\<forall>x \<in> set (result (processDefinitions env schedule [d] orig emb infos)).
             is_Location x = is_Location d)
       \<and> mset (map (convertToSameDefinitionType d)
                 (executeDefinitionProvider env (info_uri infos) (Some p)))
           \<subseteq># mset (result (processDefinitions env schedule ds orig emb infos))"
proof -
  have general: "mset (map (convertToSameDefinitionType d)
                 (executeDefinitionProvider env (info_uri infos) (Some p)))
           \<subseteq># mset (result (processDefinitions env schedule ds orig emb infos))"
    using callbackResult_in_result [OF assms(4), of env orig emb infos schedule]
      callbackResult_redirected [OF assms(1,2,3), of env orig emb]
    by simp
  from assms(3) show ?thesis
  proof
    assume "checkIsDefinitionRangeEqual d dRange \<and> p = dataSmartPosition"
    then show ?thesis
      using process_redirected_d [OF assms(1,2), of env schedule orig emb] general
      by (simp add: convert_same_shape)
  next
    assume "checkIsDefinitionRangeEqual d eRange \<and> p = eventPosition"
    then show ?thesis
      using process_redirected_e [OF assms(1,2), of env schedule orig emb] general
      by (simp add: convert_same_shape)
  qed
qed

theorem redirected_definition_one_hop_witness:
  "result (processDefinitions exampleClient [3]
      [LocationLink None ''host.py'' dRange None] hostDocument virtualDocument pythonInfos) =
     [LocationLink None ''data_smart.py'' (new_Range 30 6 30 15) None]
   \<and> calls (processDefinitions exampleClient [3]
      [LocationLink None ''host.py'' dRange None] hostDocument virtualDocument pythonInfos) =
     [ExecuteDefinitionProvider ''host.py'' (Some dataSmartPosition)]"
  using redirected_definition_one_hop [where infos = pythonInfos
      and d = "LocationLink None ''host.py'' dRange None" and p = dataSmartPosition
      and ds = "[LocationLink None ''host.py'' dRange None]" and env = exampleClient
      and schedule = "[3]" and orig = hostDocument and emb = virtualDocument]
  by (simp add: checkIsDefinitionUriEqual_def getDefinitionUri_def
        checkIsDefinitionRangeEqual_def pythonInfos_def exampleClient_def
        exampleDefinitions_def convertToSameDefinitionType_def)

section \<open>The host provider comes first\<close>

text \<open>
  Claim C3: when the host provider returns a single Location or a non-empty array, the
  middleware returns that value as it is and issues no command and opens no document:
  the embedded definition provider is not invoked.
\<close>

theorem host_result_returned_verbatim:
  assumes "nextProvider document position = Single d
           \<or> (\<exists>ds. nextProvider document position = Array ds \<and> ds \<noteq> [])"
  shows "middlewareProvideDefinition env schedule document position nextProvider =
           (nextProvider document position, [])"
  using assms
  by (auto simp add: middlewareProvideDefinition_def isArray_def arrayLength_def Let_def)

theorem host_result_returned_verbatim_witness:
  "middlewareProvideDefinition exampleClient [] hostDocument (new_Position 12 4)
     (\<lambda>document position. Array [Location ''host.bb'' (new_Range 3 0 3 5)]) =
   (Array [Location ''host.bb'' (new_Range 3 0 3 5)], [])"
  using host_result_returned_verbatim [of
      "\<lambda>document position. Array [Location ''host.bb'' (new_Range 3 0 3 5)]"
      hostDocument "new_Position 12 4" _ exampleClient "[]"]
  by simp

text \<open>
  At the same position, a host provider that finds nothing sends the request to the
  embedded document: it is opened and its definition provider is run.
\<close>

lemma embedded_lookup_when_host_empty:
  "middlewareProvideDefinition exampleClient [] hostDocument (new_Position 12 4)
     (\<lambda>document position. Array []) =
   (Array [Location ''host.bb'' (new_Range 10 0 10 3)],
    [OpenTextDocument ''host.py'',
     ExecuteDefinitionProvider ''host.py'' (Some (new_Position 6 4))])"
  by (simp add: middlewareProvideDefinition_def isArray_def arrayLength_def process_eval
      example_defs)

section \<open>Completion: the merge of embedded and host items\<close>










lemmas completion_eval =
  middlewareProvideCompletion_def orEmptyArray_def itemsOrArray_def adjustItemRange_def
  mergeArraysDistinctly_def insertDistinctly_def Let_def



text \<open>
  The order does not rest on a tie: with labels that are all different, the host item
  \<open>baz\<close> comes after the embedded items.
\<close>

lemma embedded_items_before_host_items:
  "fst (middlewareProvideCompletion exampleClient hostDocument (new_Position 12 4) None
     (\<lambda>document position.
        CompletionArray [\<lparr>label = ''baz'', detail = ''host'', item_range = NoRange\<rparr>])) =
   CompletionArray
     [\<lparr>label = ''foo'', detail = ''embedded'', item_range = NoRange\<rparr>,
      \<lparr>label = ''bar'', detail = ''embedded'', item_range = NoRange\<rparr>,
      \<lparr>label = ''baz'', detail = ''host'', item_range = NoRange\<rparr>]"
  by (simp add: completion_eval example_defs)

section \<open>Completion: the ranges of the embedded items\<close>

text \<open>
  Claim C4 says that no returned item carries a range of the embedded document. The
  callback returns early when one range of an inserting/replacing pair does not
  translate, and the item keeps its pair: of the three items offered after a dot, the
  first two come back with translated ranges and \<open>third\<close>, whose inserting range
  does not translate, with both its ranges as the embedded provider gave them.
\<close>

theorem failed_pair_keeps_embedded_ranges:
  "fst (middlewareProvideCompletion exampleClient hostDocument (new_Position 12 4) (Some ''.'')
     (\<lambda>document position. CompletionArray [])) =
   CompletionArray
     [\<lparr>label = ''first'', detail = ''embedded'',
       item_range = SingleRange (new_Range 12 2 12 4)\<rparr>,
      \<lparr>label = ''second'', detail = ''embedded'',
       item_range = InsertReplace (new_Range 12 2 12 4) (new_Range 12 2 12 8)\<rparr>,
      \<lparr>label = ''third'', detail = ''embedded'',
       item_range = InsertReplace (new_Range 3 0 6 4) (new_Range 6 2 6 8)\<rparr>]
   \<and> getOriginalDocRange exampleClient hostDocument
        (openTextDocument exampleClient ''host.py'') [] (new_Range 3 0 6 4) = None"
  by (simp add: completion_eval example_defs)

text \<open>
  A single range that does not translate is removed from its item, and a pair of which
  both ranges translate is replaced by the translated pair.
\<close>

lemma adjustItemRange_single:
  "item_range item = SingleRange r \<Longrightarrow>
   item_range (adjustItemRange env document emb indexes item) =
     (case getOriginalDocRange env document emb indexes r of
        None \<Rightarrow> NoRange | Some r' \<Rightarrow> SingleRange r')"
  by (simp add: adjustItemRange_def)

lemma adjustItemRange_pair:
  "item_range item = InsertReplace ins repl \<Longrightarrow>
   getOriginalDocRange env document emb indexes ins = Some ins' \<Longrightarrow>
   getOriginalDocRange env document emb indexes repl = Some repl' \<Longrightarrow>
   item_range (adjustItemRange env document emb indexes item) = InsertReplace ins' repl'"
  by (simp add: adjustItemRange_def)

section \<open>Completion: requests without an embedded document\<close>

text \<open>
  Claim C5 says that the host result is returned when no embedded language is found at
  the position and when no embedded document is known for the language found. The second
  guard returns \<open>undefined\<close>: on line 25 the language is bash, no bash document is
  known, and the host's item \<open>foo\<close> is lost.
\<close>

theorem host_completions_lost_without_doc_infos:
  "getEmbeddedLanguageTypeOnPosition exampleClient (uri hostDocument) (new_Position 25 0)
     = Some ''bash''
   \<and> getEmbeddedLanguageDocInfos exampleClient (uri hostDocument) ''bash'' = None
   \<and> middlewareProvideCompletion exampleClient hostDocument (new_Position 25 0) None
       (\<lambda>document position.
          CompletionArray [\<lparr>label = ''foo'', detail = ''host'', item_range = NoRange\<rparr>])
     = (CompletionUndefined, [])"
  by (simp add: completion_eval example_defs)

text \<open>The first guard does return the host result (an empty array in place of none).\<close>

lemma host_completions_returned_without_language:
  "getEmbeddedLanguageTypeOnPosition env (uri document) position = None \<Longrightarrow>
   middlewareProvideCompletion env document position triggerCharacter nextProvider =
     (orEmptyArray (nextProvider document position), [])"
  by (simp add: middlewareProvideCompletion_def Let_def)

section \<open>The definition handler always answers with an array\<close>

lemma onDefinitionHandler_array:
  "\<exists>definitions. onDefinitionHandler srv params = Some definitions"
  by (simp add: onDefinitionHandler_def Let_def split: option.splits prod.splits)

lemma onDefinitionHandler_no_document:
  "getDocumentTexts (analyzer srv) (params_uri params) = None \<Longrightarrow>
   onDefinitionHandler srv params = Some []"
  by (simp add: onDefinitionHandler_def Let_def)

lemma onDefinitionHandler_no_word:
  assumes "getDirectiveStatementKeywordByNodeType (analyzer srv) params = None
           \<or> getDirectivePathForPosition (analyzer srv) params = None"
    and "wordAtPointFromTextPosition (analyzer srv)
           (params\<lparr>params_position := wordPosition (params_position params)\<rparr>) = None"
  shows "onDefinitionHandler srv params = Some []"
  using assms
  by (auto simp add: onDefinitionHandler_def Let_def split: option.splits prod.splits)

lemma onDefinitionHandler_no_match:
  assumes "getDirectiveStatementKeywordByNodeType (analyzer srv) params = None
           \<or> getDirectivePathForPosition (analyzer srv) params = None"
    and "wordAtPointFromTextPosition (analyzer srv)
           (params\<lparr>params_position := wordPosition (params_position params)\<rparr>) = Some w"
    and "\<not> isVariableOrFunction
             (findExactSymbolAtPoint (analyzer srv) (params_uri params) (params_position params) w)"
    and "\<not> isStringContent (analyzer srv) (params_uri params) (line (params_position params))
             (character (params_position params))"
    and "\<not> isOverride (analyzer srv) (params_uri params) (line (params_position params))
             (character (params_position params))"
  shows "onDefinitionHandler srv params = Some []"
  using assms
  by (auto simp add: onDefinitionHandler_def Let_def split: option.splits prod.splits)

lemma onDefinitionHandler_no_override_file:
  assumes "getDirectiveStatementKeywordByNodeType (analyzer srv) params = None
           \<or> getDirectivePathForPosition (analyzer srv) params = None"
    and "wordAtPointFromTextPosition (analyzer srv)
           (params\<lparr>params_position := wordPosition (params_position params)\<rparr>) = Some w"
    and "\<not> isVariableOrFunction
             (findExactSymbolAtPoint (analyzer srv) (params_uri params) (params_position params) w)"
    and "\<not> isStringContent (analyzer srv) (params_uri params) (line (params_position params))
             (character (params_position params))"
    and "(case getLastScanResult (analyzer srv) (extractRecipeName srv (params_uri params)) of
            None \<Rightarrow> None
          | Some scan \<Rightarrow>
              find (\<lambda>includePath. path_ext includePath = ''.conf'' \<and> path_name includePath = w)
                (includeHistory scan)) = None"
    and "Option.bind (find (\<lambda>confFile. element_name confFile = w) (confFiles srv)) element_path
           = None"
  shows "onDefinitionHandler srv params = Some []"
  using assms
  by (auto simp add: onDefinitionHandler_def Let_def split: option.splits prod.splits)

lemmas server_defs =
  exampleServer_def exampleAnalyzer_def fooSymbol_def wordPosition_def new_Position_def
  new_Range_def SymbolKind_Variable_def SymbolKind_Function_def isVariableOrFunction_def

text \<open>
  Claim C10: the handler returns an array on every request, never \<open>null\<close>; the array
  is empty when the text of the document is not found, when there is no directive and no
  word at the position, when the word is no variable or function symbol, is not in a
  string and is no override, and when it is an override for which neither the include
  history nor the configuration files give a path; and the word is looked up at the
  character before the position, clamped at zero.
\<close>

theorem onDefinitionHandler_returns_array:
  "(\<exists>definitions. onDefinitionHandler srv params = Some definitions)
   \<and> (getDocumentTexts (analyzer srv) (params_uri params) = None \<longrightarrow>
        onDefinitionHandler srv params = Some [])
   \<and> ((getDirectiveStatementKeywordByNodeType (analyzer srv) params = None
         \<or> getDirectivePathForPosition (analyzer srv) params = None) \<longrightarrow>
        wordAtPointFromTextPosition (analyzer srv)
          (params\<lparr>params_position := wordPosition (params_position params)\<rparr>) = None \<longrightarrow>
        onDefinitionHandler srv params = Some [])
   \<and> ((getDirectiveStatementKeywordByNodeType (analyzer srv) params = None
         \<or> getDirectivePathForPosition (analyzer srv) params = None) \<longrightarrow>
        wordAtPointFromTextPosition (analyzer srv)
          (params\<lparr>params_position := wordPosition (params_position params)\<rparr>) = Some w \<longrightarrow>
        \<not> isVariableOrFunction
            (findExactSymbolAtPoint (analyzer srv) (params_uri params) (params_position params) w) \<longrightarrow>
        \<not> isStringContent (analyzer srv) (params_uri params) (line (params_position params))
            (character (params_position params)) \<longrightarrow>
        (\<not> isOverride (analyzer srv) (params_uri params) (line (params_position params))
            (character (params_position params))
         \<or> ((case getLastScanResult (analyzer srv) (extractRecipeName srv (params_uri params)) of
                None \<Rightarrow> None
              | Some scan \<Rightarrow>
                  find (\<lambda>includePath. path_ext includePath = ''.conf'' \<and> path_name includePath = w)
                    (includeHistory scan)) = None
             \<and> Option.bind (find (\<lambda>confFile. element_name confFile = w) (confFiles srv))
                  element_path = None)) \<longrightarrow>
        onDefinitionHandler srv params = Some [])
   \<and> character (wordPosition position) = max (character position - 1) 0
   \<and> 0 \<le> character (wordPosition position)"
  using onDefinitionHandler_array [of srv params]
    onDefinitionHandler_no_document [of srv params]
    onDefinitionHandler_no_word [of srv params]
    onDefinitionHandler_no_match [of srv params w]
    onDefinitionHandler_no_override_file [of srv params w]
  by (auto simp add: wordPosition_def)

theorem onDefinitionHandler_returns_array_witness:
  "onDefinitionHandler exampleServer
      \<lparr>params_uri = ''other.bb'', params_position = new_Position 5 2\<rparr> = Some []
   \<and> onDefinitionHandler exampleServer
      \<lparr>params_uri = ''recipe.bb'', params_position = new_Position 0 0\<rparr> = Some []
   \<and> onDefinitionHandler exampleServer
      \<lparr>params_uri = ''recipe.bb'', params_position = new_Position 3 9\<rparr> = Some []
   \<and> character (wordPosition (new_Position 0 0)) = 0"
  using onDefinitionHandler_returns_array [of exampleServer
      "\<lparr>params_uri = ''other.bb'', params_position = new_Position 5 2\<rparr>" "''FOO''"
      "new_Position 0 0"]
    onDefinitionHandler_returns_array [of exampleServer
      "\<lparr>params_uri = ''recipe.bb'', params_position = new_Position 0 0\<rparr>" "''FOO''"
      "new_Position 0 0"]
    onDefinitionHandler_returns_array [of exampleServer
      "\<lparr>params_uri = ''recipe.bb'', params_position = new_Position 3 9\<rparr>" "''qemux86''"
      "new_Position 0 0"]
  by (simp add: server_defs)

text \<open>On the lines with a directive and with a variable the handler finds definitions.\<close>

lemma onDefinitionHandler_finds_definitions:
  "onDefinitionHandler exampleServer
      \<lparr>params_uri = ''recipe.bb'', params_position = new_Position 1 10\<rparr> =
     Some [\<lparr>location_uri = ''file:///poky/classes/cmake.bbclass'',
            location_range = new_Range 0 0 0 0\<rparr>]
   \<and> onDefinitionHandler exampleServer
      \<lparr>params_uri = ''recipe.bb'', params_position = new_Position 5 2\<rparr> =
     Some [\<lparr>location_uri = ''recipe.bb'', location_range = new_Range 5 0 5 3\<rparr>]"
  by (simp add: onDefinitionHandler_def getDefinitionForDirectives_def
      createDefinitionLocationForPathInfo_def getAllDefinitionSymbolsForSymbolAtPoint_def
      Let_def server_defs)

section \<open>The round trip of the position translator\<close>

lemma offsetOf_le: "offsetOf str l ch \<le> length str"
  by (induction str l ch rule: offsetOf.induct) auto

lemma positionOf_offsetOf:
  "validPos str l ch \<Longrightarrow> positionOf str (offsetOf str l ch) = (l, ch)"
  by (induction str l ch rule: offsetOf.induct) (auto split: prod.splits)

lemma offsetOf_origin: "offsetOf str 0 0 = 0"
  by (cases str) simp_all

lemma offsetOf_later_line:
  "0 < l \<Longrightarrow>
   offsetOf (c # cs) l ch =
     Suc (if c = lineBreak then offsetOf cs (l - 1) ch else offsetOf cs l ch)"
  by (cases l) simp_all

lemma offsetOf_positionOf:
  "n \<le> length str \<Longrightarrow>
   offsetOf str (fst (positionOf str n)) (snd (positionOf str n)) = n"
  by (induction str n rule: positionOf.induct)
     (auto simp add: offsetOf_origin offsetOf_later_line split: prod.splits)

lemma positionAt_offsetAt:
  "validPosition str p \<Longrightarrow> positionAt str (offsetAt str p) = p"
  by (simp add: validPosition_def positionAt_def offsetAt_def positionOf_offsetOf)

lemma offsetAt_positionAt:
  "n \<le> length str \<Longrightarrow> offsetAt str (positionAt str n) = n"
  using offsetOf_positionOf [of n str]
  by (auto simp add: positionAt_def offsetAt_def split: prod.splits)

lemma nearestFrom_sound:
  "nearestFrom entries h i best = Some (j, b) \<Longrightarrow>
   best = Some (j, b) \<or> (i \<le> j \<and> j < i + length entries \<and> entries ! (j - i) = b)"
proof (induction entries arbitrary: i best)
  case Nil
  then show ?case by simp
next
  case (Cons entry entries)
  let ?best = "if 0 \<le> entry \<and> entry \<le> h \<and> (case best of None \<Rightarrow> True | Some (j, b) \<Rightarrow> b < entry)
        then Some (i, entry) else best"
  from Cons.prems have "nearestFrom entries h (Suc i) ?best = Some (j, b)"
    by simp
  from Cons.IH [OF this]
  consider "?best = Some (j, b)"
    | "Suc i \<le> j" "j < Suc i + length entries" "entries ! (j - Suc i) = b"
    by blast
  then show ?case
  proof cases
    case 1
    then show ?thesis by (auto split: if_splits)
  next
    case 2
    then have "(entry # entries) ! (j - i) = b"
      by (simp add: nth_Cons split: nat.splits) (metis Suc_diff_Suc Suc_le_lessD nat.inject)
    with 2 show ?thesis by simp
  qed
qed

lemma nearestFrom_exact:
  assumes "0 \<le> h"
    and "h \<in> set entries \<or> (\<exists>j. best = Some (j, h))"
    and "\<And>j b. best = Some (j, b) \<Longrightarrow> b \<le> h"
  shows "\<exists>j. nearestFrom entries h i best = Some (j, h)"
  using assms(2,3)
proof (induction entries arbitrary: i best)
  case Nil
  then show ?case by simp
next
  case (Cons entry entries)
  let ?best = "if 0 \<le> entry \<and> entry \<le> h \<and> (case best of None \<Rightarrow> True | Some (j, b) \<Rightarrow> b < entry)
        then Some (i, entry) else best"
  have bound: "\<And>j b. ?best = Some (j, b) \<Longrightarrow> b \<le> h"
    using Cons.prems(2) by (auto split: if_splits)
  have "h \<in> set entries \<or> (\<exists>j. ?best = Some (j, h))"
  proof (cases "\<exists>j. best = Some (j, h)")
    case True
    then show ?thesis by auto
  next
    case False
    with Cons.prems(1) have "h = entry \<or> h \<in> set entries" by auto
    then show ?thesis
    proof
      assume "h = entry"
      then show ?thesis using assms(1) Cons.prems(2) False
        by (cases best) (auto simp add: order.strict_iff_order)
    next
      assume "h \<in> set entries"
      then show ?thesis by simp
    qed
  qed
  from Cons.IH [OF this bound] show ?case by simp
qed

text \<open>
  Claim C9: for a host position inside an embedded span, and a table as long as the
  virtual text, \<open>toEmbedded\<close> succeeds, \<open>toHost\<close> succeeds on its result, and the
  result of the two is the position itself (as a position, and as the empty range at
  it); so whenever both translations succeed, the second gives back the position.
\<close>

theorem toHost_toEmbedded_round_trip:
  assumes "insideEmbeddedSpan hostDoc table P"
    and "length table = length (getText virtualDoc)"
  shows "(\<exists>Q. toEmbedded hostDoc virtualDoc table P = Some Q
           \<and> toHostPosition hostDoc virtualDoc table Q = Some P
           \<and> toHost hostDoc virtualDoc table \<lparr>range_start = Q, range_end = Q\<rparr>
               = Some \<lparr>range_start = P, range_end = P\<rparr>)
       \<and> (toEmbedded hostDoc virtualDoc table P = Some Q' \<longrightarrow>
            toHostPosition hostDoc virtualDoc table Q' = Some P' \<longrightarrow> P' = P)"
proof -
  let ?h = "offsetAt (getText hostDoc) P"
  have valid: "validPosition (getText hostDoc) P" and mapped: "int ?h \<in> set table"
    using assms(1) by (simp_all add: insideEmbeddedSpan_def)
  obtain i where found: "nearestFrom table (int ?h) 0 None = Some (i, int ?h)"
    using nearestFrom_exact [of "int ?h" table None 0] mapped by auto
  from nearestFrom_sound [OF found] have i: "i < length table" "table ! i = int ?h"
    by simp_all
  let ?Q = "positionAt (getText virtualDoc) i"
  have emb: "toEmbedded hostDoc virtualDoc table P = Some ?Q"
    using found by (simp add: toEmbedded_def)
  have index: "offsetAt (getText virtualDoc) ?Q = i"
    using i(1) assms(2) by (simp add: offsetAt_positionAt)
  have host: "toHostPosition hostDoc virtualDoc table ?Q = Some P"
    using index i valid by (simp add: toHostPosition_def positionAt_offsetAt)
  then have "toHost hostDoc virtualDoc table \<lparr>range_start = ?Q, range_end = ?Q\<rparr>
               = Some \<lparr>range_start = P, range_end = P\<rparr>"
    by (simp add: toHost_def)
  with emb host show ?thesis by auto
qed

theorem toHost_toEmbedded_round_trip_witness:
  "\<exists>Q. toEmbedded roundTripHost roundTripVirtual roundTripTable (new_Position 1 1) = Some Q
      \<and> toHostPosition roundTripHost roundTripVirtual roundTripTable Q = Some (new_Position 1 1)
      \<and> toHost roundTripHost roundTripVirtual roundTripTable \<lparr>range_start = Q, range_end = Q\<rparr>
          = Some \<lparr>range_start = new_Position 1 1, range_end = new_Position 1 1\<rparr>"
proof -
  have "insideEmbeddedSpan roundTripHost roundTripTable (new_Position 1 1)"
    by (simp add: insideEmbeddedSpan_def validPosition_def offsetAt_def roundTripHost_def
        roundTripTable_def new_Position_def lineBreak_def)
  moreover have "length roundTripTable = length (getText roundTripVirtual)"
    by (simp add: roundTripVirtual_def roundTripTable_def)
  ultimately show ?thesis
    using toHost_toEmbedded_round_trip [of roundTripHost roundTripTable "new_Position 1 1"
        roundTripVirtual]
    by blast
qed

text \<open>
  On this example the translation is the expected one, and a position of the first line,
  before every mapped offset, has no translation.
\<close>

lemma toEmbedded_example:
  "toEmbedded roundTripHost roundTripVirtual roundTripTable (new_Position 1 1)
     = Some (new_Position 1 1)
   \<and> toEmbedded roundTripHost roundTripVirtual roundTripTable (new_Position 1 0)
     = Some (new_Position 1 0)
   \<and> toEmbedded roundTripHost roundTripVirtual roundTripTable (new_Position 0 1) = None
   \<and> toHostPosition roundTripHost roundTripVirtual roundTripTable (new_Position 0 1) = None"
  by (simp add: toEmbedded_def toHostPosition_def positionAt_def offsetAt_def roundTripHost_def
      roundTripVirtual_def roundTripTable_def new_Position_def lineBreak_def eval_nat_numeral)

end
